theory Spec2Isabelle
  imports Main
begin

section \<open>Data model of the worker\<close>

text \<open>
  The worker (\<^verbatim>\<open>src/worker.ts\<close>) is one function, \<^verbatim>\<open>handleRequest\<close>, over the
  request, the configuration \<^verbatim>\<open>Env\<close> and the platform. Strings are \<^typ>\<open>string\<close>,
  JavaScript numbers that hold sizes, offsets and millisecond timestamps are \<^typ>\<open>int\<close>,
  a value that may be \<^verbatim>\<open>null\<close>, \<^verbatim>\<open>undefined\<close> or \<^verbatim>\<open>NaN\<close> is an option with
  \<open>None\<close> for it. The fields \<open>method'\<close>, \<open>size'\<close> and \<open>range'\<close> are the source's
  \<^verbatim>\<open>method\<close>, \<^verbatim>\<open>size\<close> and \<^verbatim>\<open>range\<close>. A request is given with its URL parsed, and
  header names in lower case.
\<close>

record url =
  host :: string
  pathname :: string
  searchParams :: "(string \<times> string) list"

record request =
  method' :: string
  url :: url
  headers :: "string \<rightharpoonup> string"
  body :: "string option"
  redirect :: string

record response =
  status :: nat
  resp_body :: "string option"
  resp_headers :: "(string \<times> string) list"

text \<open>\<^verbatim>\<open>type ParsedRange = { offset, length } | { suffix }\<close>\<close>

datatype ParsedRange = OffsetLength int int | Suffix int

record httpMetadata =
  cacheControl :: "string option"
  cacheExpiry :: "int option"
  contentEncoding :: "string option"
  contentType :: "string option"
  contentLanguage :: "string option"
  contentDisposition :: "string option"

text \<open>
  An \<^verbatim>\<open>R2Object\<close> is the metadata of a stored object; an \<^verbatim>\<open>R2ObjectBody\<close> also has
  a body. \<open>obj_body = None\<close> is the object without a body.
\<close>

record r2object =
  size' :: int
  etag :: string
  httpEtag :: string
  uploaded :: int
  httpMetadata :: "httpMetadata option"
  obj_body :: "string option"

record r2conditional =
  etagMatches :: "string option"
  etagDoesNotMatch :: "string option"
  uploadedBefore :: "int option"
  uploadedAfter :: "int option"

record r2getoptions =
  onlyIf :: "r2conditional option"
  range' :: "ParsedRange option"

text \<open>
  The bucket is consumed through \<^verbatim>\<open>head\<close> and \<^verbatim>\<open>get\<close> (and \<^verbatim>\<open>put\<close>, which the
  worker only schedules). Its content is taken as fixed while one request is handled.
\<close>

record bucket =
  head :: "string \<Rightarrow> r2object option"
  get :: "string \<Rightarrow> r2getoptions \<Rightarrow> r2object option"

record env =
  ALLOWED_ORIGINS :: "string option"
  CACHE_BUCKET :: bucket
  CACHE_CONTROL :: "string option"
  PARAMS_KEY :: string
  IMAGE_REGEX :: string
  IMAGE_REGEX_POST :: string
  IMAGE_HOST :: string

text \<open>The result of \<^verbatim>\<open>parseRange\<close> of the package range-parser: \<^verbatim>\<open>-1\<close>, \<^verbatim>\<open>-2\<close>,
  or the ranges \<open>(start, end)\<close> with their unit.\<close>

datatype range_result = Unsatisfiable | Malformed | Ranges string "(int \<times> int) list"

datatype exn = SyntaxError | URIError | TypeError

text \<open>
  What the worker takes from the JavaScript runtime and from the network, as parameters:
  \<^item> \<open>RegExp pat\<close> is \<^verbatim>\<open>new RegExp(pat)\<close>, \<open>None\<close> when the pattern is rejected; the
    value is the regular expression's \<^verbatim>\<open>exec\<close>, whose result is the array of the whole
    match followed by the capture groups, or \<open>None\<close> for \<^verbatim>\<open>null\<close>;
  \<^item> \<open>trim s\<close> is \<^verbatim>\<open>s.trim()\<close>;
  \<^item> \<open>decodeURIComponent s\<close> is \<open>None\<close> when the call throws;
  \<^item> \<open>Date_parse s\<close> is \<open>None\<close> for \<^verbatim>\<open>NaN\<close>;
  \<^item> \<open>fetch r\<close> is the answer of the network to the request \<open>r\<close>, \<open>None\<close> when the
    call throws (no connection).
\<close>

record platform =
  trim :: "string \<Rightarrow> string"
  RegExp :: "string \<Rightarrow> (string \<Rightarrow> string list option) option"
  decodeURIComponent :: "string \<Rightarrow> string option"
  encodeURIComponent :: "string \<Rightarrow> string"
  params_toString :: "(string \<times> string) list \<Rightarrow> string"
  Date_parse :: "string \<Rightarrow> int option"
  toUTCString :: "int \<Rightarrow> string"
  num_toString :: "int \<Rightarrow> string"
  parseRange :: "int \<Rightarrow> string \<Rightarrow> range_result"
  fetch :: "request \<Rightarrow> response option"
  message :: "exn \<Rightarrow> string"

text \<open>What a run does besides answering, in order: the calls to the bucket and to the network.\<close>

datatype event =
  StoreHead string
| StoreGet string r2getoptions
| StorePut string "string option" "(string \<times> string) list"
| OriginFetch request

section \<open>String helpers of the runtime\<close>

definition truthy :: "string option \<Rightarrow> bool" where
  "truthy h = (case h of None \<Rightarrow> False | Some s \<Rightarrow> s \<noteq> [])"

text \<open>A number is falsy when it is \<^verbatim>\<open>NaN\<close> or \<open>0\<close>.\<close>

definition truthyNum :: "int option \<Rightarrow> bool" where
  "truthyNum n = (case n of None \<Rightarrow> False | Some v \<Rightarrow> v \<noteq> 0)"

text \<open>\<^verbatim>\<open>h || ""\<close> for a string that may be \<^verbatim>\<open>null\<close>.\<close>

definition orEmpty :: "string option \<Rightarrow> string" where
  "orEmpty h = (case h of None \<Rightarrow> [] | Some s \<Rightarrow> s)"

definition startsWith :: "string \<Rightarrow> string \<Rightarrow> bool" where
  "startsWith s pre = (take (length pre) s = pre)"

fun str_includes :: "string \<Rightarrow> string \<Rightarrow> bool" where
  "str_includes [] sub = (sub = [])"
| "str_includes (c # cs) sub = (startsWith (c # cs) sub \<or> str_includes cs sub)"

text \<open>\<^verbatim>\<open>s.split(c)\<close> for a one-character separator.\<close>

fun split_on :: "char \<Rightarrow> string \<Rightarrow> string list" where
  "split_on c [] = [[]]"
| "split_on c (x # xs) =
     (if x = c then [] # split_on c xs
      else (case split_on c xs of [] \<Rightarrow> [[x]] | w # ws \<Rightarrow> (x # w) # ws))"

definition isQuote :: "char \<Rightarrow> bool" where
  "isQuote c = (c = CHR 0x27 \<or> c = CHR 0x22)"

text \<open>\<^verbatim>\<open>s.replace(/^['"]|['"]$/g, "")\<close>: one quote character is removed at the start, then
  one at the end of what is left.\<close>

definition stripQuotes :: "string \<Rightarrow> string" where
  "stripQuotes s =
     (let s1 = (case s of [] \<Rightarrow> [] | c # cs \<Rightarrow> if isQuote c then cs else s)
      in if s1 \<noteq> [] \<and> isQuote (last s1) then butlast s1 else s1)"

text \<open>\<^verbatim>\<open>const getHeaderEtag = (header) => header?.trim().replace(/^['"]|['"]$/g, "")\<close>\<close>

definition getHeaderEtag :: "platform \<Rightarrow> string option \<Rightarrow> string option" where
  "getHeaderEtag p header = map_option (\<lambda>h. stripQuotes (trim p h)) header"

section \<open>The handler\<close>

subsection \<open>Cache key (lines 43-50 and 70-73)\<close>

text \<open>
  \<^verbatim>\<open>const [match] = (request.method === "POST" ? cacheKeyRegexPOST : cacheKeyRegex)
      .exec(decodeURIComponent(url.pathname).substring(1)) ?? []\<close>:
  the destructuring takes element 0 of the result of \<^verbatim>\<open>exec\<close>. The assignment
  \<^verbatim>\<open>url.host = env.IMAGE_HOST\<close> changes the local \<^verbatim>\<open>url\<close> only.
\<close>

definition matchOf :: "platform \<Rightarrow> env \<Rightarrow> request \<Rightarrow> exn + string option" where
  "matchOf p env request =
     (case RegExp p (IMAGE_REGEX env) of
        None \<Rightarrow> Inl SyntaxError
      | Some cacheKeyRegex \<Rightarrow>
         (case RegExp p (IMAGE_REGEX_POST env) of
            None \<Rightarrow> Inl SyntaxError
          | Some cacheKeyRegexPOST \<Rightarrow>
             (let url' = (url request)\<lparr>host := IMAGE_HOST env\<rparr> in
              case decodeURIComponent p (pathname url') of
                None \<Rightarrow> Inl URIError
              | Some decoded \<Rightarrow>
                 Inr (case (if method' request = ''POST'' then cacheKeyRegexPOST else cacheKeyRegex)
                             (drop 1 decoded) of
                        None \<Rightarrow> None
                      | Some [] \<Rightarrow> None
                      | Some (m # groups) \<Rightarrow> Some m))))"

definition cacheable :: "request \<Rightarrow> string option \<Rightarrow> bool" where
  "cacheable request match =
     (method' request \<in> set [''GET'', ''HEAD'', ''POST''] \<and> truthy match)"

text \<open>\<^verbatim>\<open>env.PARAMS_KEY.split(",").map((v) => v.trim()).forEach((v) =>
    (url.searchParams.has(v) ? params.append(v, url.searchParams.get(v)) : null))\<close>\<close>

definition paramsOf :: "platform \<Rightarrow> env \<Rightarrow> url \<Rightarrow> (string \<times> string) list" where
  "paramsOf p env u =
     concat (map (\<lambda>v. case map_of (searchParams u) v of None \<Rightarrow> [] | Some x \<Rightarrow> [(v, x)])
                 (map (trim p) (split_on CHR '','' (PARAMS_KEY env))))"

definition paramsSuffix :: "platform \<Rightarrow> env \<Rightarrow> url \<Rightarrow> string" where
  "paramsSuffix p env u =
     (let params = paramsOf p env u
      in if params \<noteq> [] then ''+'' @ encodeURIComponent p (params_toString p params) else [])"

text \<open>The key of a request, \<open>Inr None\<close> when the request is not cacheable.\<close>

definition deriveKey :: "platform \<Rightarrow> env \<Rightarrow> request \<Rightarrow> exn + string option" where
  "deriveKey p env request =
     (case matchOf p env request of
        Inl e \<Rightarrow> Inl e
      | Inr match \<Rightarrow>
          if cacheable request match
          then Inr (Some (orEmpty match @ paramsSuffix p env (url request)))
          else Inr None)"

subsection \<open>Conditional headers (lines 63-68)\<close>

record conditionals =
  ifMatch :: "string option"
  ifNoneMatch :: "string option"
  ifModifiedSince :: "int option"
  ifUnmodifiedSince :: "int option"
  ifRange :: "string option"

definition conditionalHeaders :: "platform \<Rightarrow> request \<Rightarrow> conditionals" where
  "conditionalHeaders p request =
     \<lparr> ifMatch = getHeaderEtag p (headers request ''if-match''),
       ifNoneMatch = getHeaderEtag p (headers request ''if-none-match''),
       ifModifiedSince = Date_parse p (orEmpty (headers request ''if-modified-since'')),
       ifUnmodifiedSince = Date_parse p (orEmpty (headers request ''if-unmodified-since'')),
       ifRange = headers request ''if-range'' \<rparr>"

subsection \<open>Range resolution (lines 75-91)\<close>

definition rangeNotSatisfiable :: response where
  "rangeNotSatisfiable =
     \<lparr> status = 416, resp_body = Some ''Range Not Satisfiable'', resp_headers = [] \<rparr>"

definition toParsedRange :: "r2object \<Rightarrow> int \<times> int \<Rightarrow> ParsedRange" where
  "toParsedRange file firstRange =
     (case firstRange of (start, end') \<Rightarrow>
        if size' file = end' + 1 then Suffix (size' file - start)
        else OffsetLength start (end' - start + 1))"

definition resolveRange ::
  "platform \<Rightarrow> env \<Rightarrow> request \<Rightarrow> string \<Rightarrow>
   event list \<times> (response + r2object option \<times> ParsedRange option)" where
  "resolveRange p env request cacheKey =
     (if method' request = ''GET'' then
        (case headers request ''range'' of
           None \<Rightarrow> ([], Inr (None, None))
         | Some rangeHeader \<Rightarrow>
            if rangeHeader = [] then ([], Inr (None, None))
            else
              (case head (CACHE_BUCKET env) cacheKey of
                 None \<Rightarrow> ([StoreHead cacheKey], Inr (None, None))
               | Some file \<Rightarrow>
                  (case parseRange p (size' file) rangeHeader of
                     Ranges type [firstRange] \<Rightarrow>
                       if type = ''bytes''
                       then ([StoreHead cacheKey],
                             Inr (Some file, Some (toParsedRange file firstRange)))
                       else ([StoreHead cacheKey], Inl rangeNotSatisfiable)
                   | _ \<Rightarrow> ([StoreHead cacheKey], Inl rangeNotSatisfiable))))
      else ([], Inr (None, None)))"

subsection \<open>If-Range (lines 94-102)\<close>

definition ifRangeGate ::
  "platform \<Rightarrow> r2object option \<Rightarrow> ParsedRange option \<Rightarrow> string option \<Rightarrow> ParsedRange option" where
  "ifRangeGate p file rng ifRange' =
     (case file of
        None \<Rightarrow> rng
      | Some f \<Rightarrow>
         (case rng of
            None \<Rightarrow> rng
          | Some r \<Rightarrow>
             (case ifRange' of
                None \<Rightarrow> rng
              | Some t \<Rightarrow>
                 if t = [] then rng
                 else if (case Date_parse p t of None \<Rightarrow> True
                          | Some maybeDate \<Rightarrow> maybeDate > uploaded f)
                 then (if startsWith t ''W/'' \<or> t \<noteq> httpEtag f then None else rng)
                 else rng)))"

subsection \<open>Must-match group (lines 104-114)\<close>

definition hasBody :: "r2object option \<Rightarrow> bool" where
  "hasBody object = (case object of None \<Rightarrow> False | Some f \<Rightarrow> obj_body f \<noteq> None)"

definition preconditionFailed :: response where
  "preconditionFailed =
     \<lparr> status = 412, resp_body = Some ''Precondition Failed'', resp_headers = [] \<rparr>"

definition mustMatchOptions :: "conditionals \<Rightarrow> ParsedRange option \<Rightarrow> r2getoptions" where
  "mustMatchOptions c rng =
     \<lparr> onlyIf = Some \<lparr> etagMatches = ifMatch c, etagDoesNotMatch = None,
                       uploadedBefore = (if truthyNum (ifUnmodifiedSince c)
                                         then ifUnmodifiedSince c else None),
                       uploadedAfter = None \<rparr>,
       range' = rng \<rparr>"

definition mustMatch ::
  "env \<Rightarrow> string \<Rightarrow> conditionals \<Rightarrow> r2object option \<Rightarrow> ParsedRange option \<Rightarrow>
   event list \<times> (response + r2object option)" where
  "mustMatch env cacheKey c file rng =
     (if truthy (ifMatch c) \<or> truthyNum (ifUnmodifiedSince c) then
        (let file' = get (CACHE_BUCKET env) cacheKey (mustMatchOptions c rng)
         in if \<not> hasBody file'
            then ([StoreGet cacheKey (mustMatchOptions c rng)], Inl preconditionFailed)
            else ([StoreGet cacheKey (mustMatchOptions c rng)], Inr file'))
      else ([], Inr file))"

subsection \<open>Must-not-match group (lines 116-124)\<close>

definition notModified :: response where
  "notModified = \<lparr> status = 304, resp_body = None, resp_headers = [] \<rparr>"

definition mustNotMatchOptions :: "conditionals \<Rightarrow> ParsedRange option \<Rightarrow> r2getoptions" where
  "mustNotMatchOptions c rng =
     (if truthy (ifNoneMatch c)
      then \<lparr> onlyIf = Some \<lparr> etagMatches = None, etagDoesNotMatch = ifNoneMatch c,
                              uploadedBefore = None, uploadedAfter = None \<rparr>,
             range' = rng \<rparr>
      else \<lparr> onlyIf = Some \<lparr> etagMatches = None, etagDoesNotMatch = None,
                              uploadedBefore = None, uploadedAfter = ifModifiedSince c \<rparr>,
             range' = rng \<rparr>)"

definition mustNotMatch ::
  "env \<Rightarrow> string \<Rightarrow> conditionals \<Rightarrow> r2object option \<Rightarrow> ParsedRange option \<Rightarrow>
   event list \<times> (response + r2object option)" where
  "mustNotMatch env cacheKey c file rng =
     (if truthy (ifNoneMatch c) \<or> truthyNum (ifModifiedSince c) then
        (let file' = get (CACHE_BUCKET env) cacheKey (mustNotMatchOptions c rng)
         in if \<not> hasBody file'
            then ([StoreGet cacheKey (mustNotMatchOptions c rng)], Inl notModified)
            else ([StoreGet cacheKey (mustNotMatchOptions c rng)], Inr file'))
      else ([], Inr file))"

subsection \<open>Hit, miss or bad request (lines 126-173)\<close>

text \<open>\<^verbatim>\<open>!file.httpMetadata?.cacheControl?.includes("private")\<close> is the negation of:\<close>

definition isPrivate :: "r2object \<Rightarrow> bool" where
  "isPrivate file =
     (case httpMetadata file of
        None \<Rightarrow> False
      | Some m \<Rightarrow> (case cacheControl m of None \<Rightarrow> False | Some cc \<Rightarrow> str_includes cc ''private''))"

definition getRangeHeader :: "platform \<Rightarrow> ParsedRange \<Rightarrow> int \<Rightarrow> string" where
  "getRangeHeader p rng fileSize =
     ''bytes '' @
     num_toString p (case rng of Suffix s \<Rightarrow> fileSize - s | OffsetLength off len \<Rightarrow> off) @
     ''-'' @
     num_toString p (case rng of Suffix s \<Rightarrow> fileSize - 1 | OffsetLength off len \<Rightarrow> off + len - 1) @
     ''/'' @ num_toString p fileSize"

definition metaField :: "r2object \<Rightarrow> (httpMetadata \<Rightarrow> 'a option) \<Rightarrow> 'a option" where
  "metaField file field = (case httpMetadata file of None \<Rightarrow> None | Some m \<Rightarrow> field m)"

text \<open>The response built from the stored object (lines 135-153).\<close>

definition hitResponse :: "platform \<Rightarrow> env \<Rightarrow> r2object \<Rightarrow> ParsedRange option \<Rightarrow> response" where
  "hitResponse p env file rng =
     \<lparr> status = (if rng \<noteq> None then 206 else 200),
       resp_body = (if hasBody (Some file) \<and> size' file \<noteq> 0 then obj_body file else None),
       resp_headers =
         [(''accept-ranges'', ''bytes''),
          (''access-control-allow-origin'', orEmpty (ALLOWED_ORIGINS env)),
          (''etag'', httpEtag file),
          (''cache-control'',
             (case metaField file cacheControl of
                Some cc \<Rightarrow> cc | None \<Rightarrow> orEmpty (CACHE_CONTROL env))),
          (''expires'',
             (case metaField file cacheExpiry of Some d \<Rightarrow> toUTCString p d | None \<Rightarrow> [])),
          (''last-modified'', toUTCString p (uploaded file)),
          (''content-encoding'', orEmpty (metaField file contentEncoding)),
          (''content-type'',
             (case metaField file contentType of
                Some t \<Rightarrow> t | None \<Rightarrow> ''application/octet-stream'')),
          (''content-language'', orEmpty (metaField file contentLanguage)),
          (''content-disposition'', orEmpty (metaField file contentDisposition)),
          (''content-range'',
             (case rng of Some r \<Rightarrow> getRangeHeader p r (size' file) | None \<Rightarrow> [])),
          (''content-length'',
             num_toString p
               (case rng of
                  Some (OffsetLength off len) \<Rightarrow> len
                | Some (Suffix s) \<Rightarrow> s
                | None \<Rightarrow> size' file))] \<rparr>"

definition badRequest :: response where
  "badRequest = \<lparr> status = 400, resp_body = Some ''Bad Request'', resp_headers = [] \<rparr>"

definition originDown :: response where
  "originDown = \<lparr> status = 521, resp_body = None, resp_headers = [] \<rparr>"

text \<open>
  \<^verbatim>\<open>new Request(request, { method: "HEAD", redirect: "manual" })\<close>. The constructor
  throws a \<^verbatim>\<open>TypeError\<close> when the request has a body, which a HEAD request cannot have.
\<close>

definition headProbe :: "request \<Rightarrow> exn + request" where
  "headProbe request =
     (if body request \<noteq> None then Inl TypeError
      else Inr (request\<lparr>method' := ''HEAD'', redirect := ''manual''\<rparr>))"

text \<open>\<^verbatim>\<open>new Request(request, { headers })\<close> after the three \<^verbatim>\<open>headers.delete\<close>.\<close>

definition missRequest :: "request \<Rightarrow> request" where
  "missRequest request =
     request\<lparr>headers := (headers request)
                 (''if-match'' := None, ''if-none-match'' := None, ''range'' := None)\<rparr>"

text \<open>\<^verbatim>\<open>response.ok\<close>\<close>

definition ok :: "response \<Rightarrow> bool" where
  "ok r = (200 \<le> status r \<and> status r \<le> 299)"

text \<open>The body of the first branch (lines 132-153): the body is fetched when the object
  in hand has none.\<close>

definition hit ::
  "platform \<Rightarrow> env \<Rightarrow> string \<Rightarrow> r2object \<Rightarrow> ParsedRange option \<Rightarrow> event list \<times> response" where
  "hit p env cacheKey file rng =
     (if \<not> hasBody (Some file)
      then ([StoreGet cacheKey \<lparr>onlyIf = None, range' = rng\<rparr>],
            hitResponse p env
              (case get (CACHE_BUCKET env) cacheKey \<lparr>onlyIf = None, range' = rng\<rparr> of
                 None \<Rightarrow> file | Some file' \<Rightarrow> file') rng)
      else ([], hitResponse p env file rng))"

definition miss :: "platform \<Rightarrow> request \<Rightarrow> string \<Rightarrow> event list \<times> response" where
  "miss p request cacheKey =
     (case fetch p (missRequest request) of
        None \<Rightarrow> ([OriginFetch (missRequest request)], originDown)
      | Some r \<Rightarrow>
          ([OriginFetch (missRequest request)] @
           (if method' request \<in> set [''GET'', ''POST''] \<and> ok r \<and> resp_body r \<noteq> None
            then [StorePut cacheKey (resp_body r) (resp_headers r)] else []),
           r))"

definition serve ::
  "platform \<Rightarrow> env \<Rightarrow> request \<Rightarrow> string \<Rightarrow> r2object option \<Rightarrow> ParsedRange option \<Rightarrow>
   event list \<times> (exn + response)" where
  "serve p env request cacheKey file0 rng =
     (let l0 = (case file0 of None \<Rightarrow> [StoreHead cacheKey] | Some f \<Rightarrow> []);
          file = (case file0 of None \<Rightarrow> head (CACHE_BUCKET env) cacheKey | Some f \<Rightarrow> Some f)
      in case file of
           Some f \<Rightarrow>
             if \<not> isPrivate f
             then (l0 @ fst (hit p env cacheKey f rng), Inr (snd (hit p env cacheKey f rng)))
             else
               (case headProbe request of
                  Inl e \<Rightarrow> (l0, Inl e)
                | Inr probe \<Rightarrow>
                   (case fetch p probe of
                      None \<Rightarrow> (l0 @ [OriginFetch probe], Inl TypeError)
                    | Some origin \<Rightarrow>
                        if status origin < 300 \<or> status origin = 304
                        then (l0 @ [OriginFetch probe] @ fst (hit p env cacheKey f rng),
                              Inr (snd (hit p env cacheKey f rng)))
                        else (l0 @ [OriginFetch probe], Inr badRequest)))
         | None \<Rightarrow>
             if rng = None
             then (l0 @ fst (miss p request cacheKey), Inr (snd (miss p request cacheKey)))
             else (l0, Inr badRequest))"

subsection \<open>The whole handler\<close>

text \<open>The handler after the key and the conditional headers are known (lines 75-173).\<close>

definition handleCacheable ::
  "platform \<Rightarrow> env \<Rightarrow> request \<Rightarrow> string \<Rightarrow> conditionals \<Rightarrow> event list \<times> (exn + response)" where
  "handleCacheable p env request cacheKey c =
     (case resolveRange p env request cacheKey of
        (l1, Inl r) \<Rightarrow> (l1, Inr r)
      | (l1, Inr (file1, range1)) \<Rightarrow>
         (let rng = ifRangeGate p file1 range1 (ifRange c) in
          case mustMatch env cacheKey c file1 rng of
            (l2, Inl r) \<Rightarrow> (l1 @ l2, Inr r)
          | (l2, Inr file2) \<Rightarrow>
             (case mustNotMatch env cacheKey c file2 rng of
                (l3, Inl r) \<Rightarrow> (l1 @ l2 @ l3, Inr r)
              | (l3, Inr file3) \<Rightarrow>
                 (case serve p env request cacheKey file3 rng of
                    (l4, r) \<Rightarrow> (l1 @ l2 @ l3 @ l4, r)))))"

definition handleRequest ::
  "platform \<Rightarrow> env \<Rightarrow> request \<Rightarrow> event list \<times> (exn + response)" where
  "handleRequest p env request =
     (case deriveKey p env request of
        Inl e \<Rightarrow> ([], Inl e)
      | Inr None \<Rightarrow>
         (case fetch p request of
            None \<Rightarrow> ([OriginFetch request], Inl TypeError)
          | Some r \<Rightarrow> ([OriginFetch request], Inr r))
      | Inr (Some cacheKey) \<Rightarrow>
          handleCacheable p env request cacheKey (conditionalHeaders p request))"

text \<open>The exported \<^verbatim>\<open>fetch\<close>: an exception becomes a 500 with its message.\<close>

definition worker_fetch :: "platform \<Rightarrow> env \<Rightarrow> request \<Rightarrow> event list \<times> response" where
  "worker_fetch p env request =
     (case handleRequest p env request of
        (l, Inl e) \<Rightarrow> (l, \<lparr> status = 500, resp_body = Some (message p e), resp_headers = [] \<rparr>)
      | (l, Inr r) \<Rightarrow> (l, r))"

section \<open>The object store\<close>

text \<open>
  Modelled from the spec: the object store is the platform's, not code of the repository.
  Its contract (section 6 of the specification) is \<^verbatim>\<open>head(key)\<close>, the metadata or
  absent, and \<^verbatim>\<open>get(key, {range?, onlyIf?})\<close>, the metadata with the body, where a
  failed precondition is told from an absent object by an object without a body. A
  precondition holds when each condition that is given holds: the entity-tag is equal
  (\<open>etagMatches\<close>) or different (\<open>etagDoesNotMatch\<close>), the upload time is at most
  \<open>uploadedBefore\<close> (section 4.3) or later than \<open>uploadedAfter\<close>.
\<close>

definition onlyIfHolds :: "r2object \<Rightarrow> r2conditional \<Rightarrow> bool" where
  "onlyIfHolds obj c =
     ((case etagMatches c of None \<Rightarrow> True | Some e \<Rightarrow> etag obj = e) \<and>
      (case etagDoesNotMatch c of None \<Rightarrow> True | Some e \<Rightarrow> etag obj \<noteq> e) \<and>
      (case uploadedBefore c of None \<Rightarrow> True | Some d \<Rightarrow> uploaded obj \<le> d) \<and>
      (case uploadedAfter c of None \<Rightarrow> True | Some d \<Rightarrow> d < uploaded obj))"

definition rangeBody :: "r2object \<Rightarrow> ParsedRange option \<Rightarrow> string" where
  "rangeBody obj rng =
     (case rng of
        None \<Rightarrow> orEmpty (obj_body obj)
      | Some (OffsetLength off len) \<Rightarrow> take (nat len) (drop (nat off) (orEmpty (obj_body obj)))
      | Some (Suffix n) \<Rightarrow> drop (nat (size' obj - n)) (orEmpty (obj_body obj)))"

text \<open>The stored object with the bytes of the range as its body.\<close>

definition served :: "r2object \<Rightarrow> ParsedRange option \<Rightarrow> r2object" where
  "served obj rng = obj\<lparr>obj_body := Some (rangeBody obj rng)\<rparr>"

definition r2_get :: "(string \<rightharpoonup> r2object) \<Rightarrow> string \<Rightarrow> r2getoptions \<Rightarrow> r2object option" where
  "r2_get objs key opts =
     (case objs key of
        None \<Rightarrow> None
      | Some obj \<Rightarrow>
          if (case onlyIf opts of None \<Rightarrow> True | Some c \<Rightarrow> onlyIfHolds obj c)
          then Some (served obj (range' opts))
          else Some (obj\<lparr>obj_body := None\<rparr>))"

definition r2_head :: "(string \<rightharpoonup> r2object) \<Rightarrow> string \<Rightarrow> r2object option" where
  "r2_head objs key = map_option (\<lambda>obj. obj\<lparr>obj_body := None\<rparr>) (objs key)"

definition r2_bucket :: "(string \<rightharpoonup> r2object) \<Rightarrow> bucket" where
  "r2_bucket objs = \<lparr> head = r2_head objs, get = r2_get objs \<rparr>"

section \<open>Notions used in the statements\<close>

text \<open>Range resolution answers 416 (lines 75-91).\<close>

definition rangeRejected :: "platform \<Rightarrow> env \<Rightarrow> request \<Rightarrow> string \<Rightarrow> bool" where
  "rangeRejected p env request key = isl (snd (resolveRange p env request key))"

text \<open>The range that is left after range resolution and If-Range (lines 75-102).\<close>

definition rangeInEffect ::
  "platform \<Rightarrow> env \<Rightarrow> request \<Rightarrow> string \<Rightarrow> conditionals \<Rightarrow> ParsedRange option" where
  "rangeInEffect p env request key c =
     (case snd (resolveRange p env request key) of
        Inl r \<Rightarrow> None
      | Inr (file1, range1) \<Rightarrow> ifRangeGate p file1 range1 (ifRange c))"

text \<open>The must-match group is in effect and the stored object fails its condition; likewise
  for the must-not-match group.\<close>

definition mustMatchFails :: "r2object \<Rightarrow> conditionals \<Rightarrow> bool" where
  "mustMatchFails obj c =
     ((truthy (ifMatch c) \<or> truthyNum (ifUnmodifiedSince c)) \<and>
      (case onlyIf (mustMatchOptions c None) of
         None \<Rightarrow> False | Some cnd \<Rightarrow> \<not> onlyIfHolds obj cnd))"

definition mustNotMatchFails :: "r2object \<Rightarrow> conditionals \<Rightarrow> bool" where
  "mustNotMatchFails obj c =
     ((truthy (ifNoneMatch c) \<or> truthyNum (ifModifiedSince c)) \<and>
      (case onlyIf (mustNotMatchOptions c None) of
         None \<Rightarrow> False | Some cnd \<Rightarrow> \<not> onlyIfHolds obj cnd))"

text \<open>The answer of the privacy gate (lines 128-153) for an object that is in the store.\<close>

definition privacyGate ::
  "platform \<Rightarrow> env \<Rightarrow> request \<Rightarrow> r2object \<Rightarrow> ParsedRange option \<Rightarrow> exn + response" where
  "privacyGate p env request obj rng =
     (if \<not> isPrivate obj then Inr (hitResponse p env (served obj rng) rng)
      else
        (case headProbe request of
           Inl e \<Rightarrow> Inl e
         | Inr probe \<Rightarrow>
            (case fetch p probe of
               None \<Rightarrow> Inl TypeError
             | Some origin \<Rightarrow>
                 if status origin < 300 \<or> status origin = 304
                 then Inr (hitResponse p env (served obj rng) rng)
                 else Inr badRequest)))"

section \<open>A sample deployment\<close>

text \<open>
  A runtime, a configuration and requests on which the handler is evaluated below. The
  pattern \<^verbatim>\<open>^img/(.+)$\<close> is the only one the sample runtime knows.
\<close>

definition img_regex :: "string \<Rightarrow> string list option" where
  "img_regex s =
     (if startsWith s ''img/'' \<and> 4 < length s \<and> CHR 0x0A \<notin> set s \<and> CHR 0x0D \<notin> set s
      then Some [s, drop 4 s] else None)"

text \<open>\<^verbatim>\<open>s.trim()\<close> on strings of code units below 256, where the white space is tab,
  line feed, vertical tab, form feed, carriage return, space and no-break space.\<close>

definition sample_isWhiteSpace :: "char \<Rightarrow> bool" where
  "sample_isWhiteSpace c =
     (c \<in> set [CHR 0x09, CHR 0x0A, CHR 0x0B, CHR 0x0C, CHR 0x0D, CHR 0x20, CHR 0xA0])"

definition sample_trim :: "string \<Rightarrow> string" where
  "sample_trim s = rev (dropWhile sample_isWhiteSpace (rev (dropWhile sample_isWhiteSpace s)))"

definition sample_Date_parse :: "string \<Rightarrow> int option" where
  "sample_Date_parse s =
     (if s = ''Thu, 01 Jan 1970 00:00:00 GMT'' then Some 0
      else if s = ''Wed, 21 Oct 2015 07:28:00 GMT'' then Some 1445412480000
      else if s = ''Thu, 22 Oct 2015 07:28:00 GMT'' then Some 1445498880000
      else if s = ''Fri, 23 Oct 2015 07:28:00 GMT'' then Some 1445585280000
      else None)"

definition sample_parseRange :: "int \<Rightarrow> string \<Rightarrow> range_result" where
  "sample_parseRange n s =
     (if s = ''bytes=0-9'' then (if 0 < n then Ranges ''bytes'' [(0, min 9 (n - 1))] else Unsatisfiable)
      else if s = ''bytes=0-1,5-6''
      then (if 5 < n then Ranges ''bytes'' [(0, 1), (5, min 6 (n - 1))]
            else if 0 < n then Ranges ''bytes'' [(0, min 1 (n - 1))] else Unsatisfiable)
      else Malformed)"

definition sample_origin :: "request \<Rightarrow> response option" where
  "sample_origin r =
     Some \<lparr> status = 200, resp_body = (if method' r = ''HEAD'' then None else Some ''XYZ''),
            resp_headers = [(''content-type'', ''image/png'')] \<rparr>"

definition sample_platform :: platform where
  "sample_platform =
     \<lparr> trim = sample_trim,
       RegExp = (\<lambda>pat. if pat = ''^img/(.+)$'' then Some img_regex else None),
       decodeURIComponent = (\<lambda>s. if CHR ''%'' \<in> set s then None else Some s),
       encodeURIComponent =
         (\<lambda>s. concat (map (\<lambda>c. if c = CHR ''='' then ''%3D''
                                 else if c = CHR ''&'' then ''%26'' else [c]) s)),
       params_toString =
         (\<lambda>ps. concat (map (\<lambda>(k, v). k @ ''='' @ v @ ''&'') (butlast ps)) @
                (case ps of [] \<Rightarrow> [] | _ \<Rightarrow> fst (last ps) @ ''='' @ snd (last ps))),
       Date_parse = sample_Date_parse,
       toUTCString = (\<lambda>d. if d = 1445412480000 then ''Wed, 21 Oct 2015 07:28:00 GMT''
                            else ''Thu, 01 Jan 1970 00:00:00 GMT''),
       num_toString = (\<lambda>n. if n = 100 then ''100'' else if n = 10 then ''10''
                             else if n = 9 then ''9'' else ''0''),
       parseRange = sample_parseRange,
       fetch = sample_origin,
       message = (\<lambda>e. ''error'') \<rparr>"

definition sample_env :: "(string \<rightharpoonup> r2object) \<Rightarrow> env" where
  "sample_env objs =
     \<lparr> ALLOWED_ORIGINS = None, CACHE_BUCKET = r2_bucket objs, CACHE_CONTROL = None,
       PARAMS_KEY = ''w,h'', IMAGE_REGEX = ''^img/(.+)$'', IMAGE_REGEX_POST = ''^img/(.+)$'',
       IMAGE_HOST = ''origin.example'' \<rparr>"

definition sample_object :: "string option \<Rightarrow> r2object" where
  "sample_object cc =
     \<lparr> size' = 100, etag = ''abc'', httpEtag = [CHR 0x22] @ ''abc'' @ [CHR 0x22],
       uploaded = 1445498880000,
       httpMetadata = Some \<lparr> cacheControl = cc, cacheExpiry = None, contentEncoding = None,
                              contentType = Some ''image/png'', contentLanguage = None,
                              contentDisposition = None \<rparr>,
       obj_body = Some (replicate 100 CHR ''x'') \<rparr>"

definition sample_request :: "string \<Rightarrow> (string \<rightharpoonup> string) \<Rightarrow> request" where
  "sample_request m hs =
     \<lparr> method' = m,
       url = \<lparr> host = ''cdn.example'', pathname = ''/img/a.png'', searchParams = [] \<rparr>,
       headers = hs, body = None, redirect = ''follow'' \<rparr>"

text \<open>Headers, stores and objects of the sample requests.\<close>

definition hdr :: "string \<Rightarrow> string \<Rightarrow> (string \<rightharpoonup> string)" where
  "hdr n v = [n \<mapsto> v]"

definition hdr2 :: "string \<Rightarrow> string \<Rightarrow> string \<Rightarrow> string \<Rightarrow> (string \<rightharpoonup> string)" where
  "hdr2 n v n' v' = [n \<mapsto> v, n' \<mapsto> v']"

definition hdr3 ::
  "string \<Rightarrow> string \<Rightarrow> string \<Rightarrow> string \<Rightarrow> string \<Rightarrow> string \<Rightarrow> (string \<rightharpoonup> string)" where
  "hdr3 n v n' v' n'' v'' = [n \<mapsto> v, n' \<mapsto> v', n'' \<mapsto> v'']"

definition no_headers :: "string \<rightharpoonup> string" where
  "no_headers = Map.empty"

definition empty_store :: "string \<rightharpoonup> r2object" where
  "empty_store = Map.empty"

definition store_of :: "r2object \<Rightarrow> (string \<rightharpoonup> r2object)" where
  "store_of obj = [''img/a.png'' \<mapsto> obj]"

definition public_object :: r2object where
  "public_object = sample_object None"

definition private_object :: r2object where
  "private_object = sample_object (Some ''private, max-age=60'')"

definition quoted :: "string \<Rightarrow> string" where
  "quoted s = [CHR 0x22] @ s @ [CHR 0x22]"

definition public_env :: env where
  "public_env = sample_env (store_of public_object)"

definition private_env :: env where
  "private_env = sample_env (store_of private_object)"

definition empty_env :: env where
  "empty_env = sample_env empty_store"

section \<open>Facts about the stages\<close>

lemmas model_defs =
  handleRequest_def handleCacheable_def deriveKey_def matchOf_def cacheable_def
  paramsSuffix_def paramsOf_def conditionalHeaders_def resolveRange_def ifRangeGate_def
  mustMatch_def mustNotMatch_def mustMatchOptions_def mustNotMatchOptions_def serve_def
  hit_def miss_def hasBody_def isPrivate_def truthy_def truthyNum_def orEmpty_def
  getHeaderEtag_def stripQuotes_def isQuote_def startsWith_def
  toParsedRange_def headProbe_def missRequest_def ok_def
  r2_bucket_def r2_get_def r2_head_def onlyIfHolds_def served_def rangeBody_def Let_def

lemmas sample_defs =
  sample_platform_def sample_env_def sample_object_def sample_request_def img_regex_def
  sample_Date_parse_def sample_parseRange_def sample_origin_def sample_trim_def
  sample_isWhiteSpace_def
  hdr_def hdr2_def hdr3_def no_headers_def empty_store_def store_of_def public_object_def
  private_object_def quoted_def public_env_def private_env_def empty_env_def

lemmas response_defs =
  rangeNotSatisfiable_def preconditionFailed_def notModified_def badRequest_def
  originDown_def hitResponse_def

subsection \<open>What each stage does to the bucket and to the network\<close>

lemma resolveRange_events:
  "e \<in> set (fst (resolveRange p env request key)) \<Longrightarrow> e = StoreHead key"
  by (auto simp: resolveRange_def
      split: if_splits option.splits range_result.splits list.splits)

lemma mustMatch_events:
  "e \<in> set (fst (mustMatch env key c file rng)) \<Longrightarrow>
     e = StoreGet key (mustMatchOptions c rng) \<and>
     (truthy (ifMatch c) \<or> truthyNum (ifUnmodifiedSince c))"
  by (auto simp: mustMatch_def Let_def split: if_splits)

lemma mustNotMatch_events:
  "e \<in> set (fst (mustNotMatch env key c file rng)) \<Longrightarrow>
     e = StoreGet key (mustNotMatchOptions c rng) \<and>
     (truthy (ifNoneMatch c) \<or> truthyNum (ifModifiedSince c))"
  by (auto simp: mustNotMatch_def Let_def split: if_splits)

lemma serve_events:
  "e \<in> set (fst (serve p env request key file rng)) \<Longrightarrow>
     e = StoreHead key \<or> e = StoreGet key \<lparr>onlyIf = None, range' = rng\<rparr> \<or>
     (\<exists>probe. headProbe request = Inr probe \<and> e = OriginFetch probe) \<or>
     e = OriginFetch (missRequest request) \<or>
     (\<exists>b h. e = StorePut key b h)"
  by (auto simp: serve_def hit_def miss_def Let_def split: if_splits option.splits sum.splits)

subsection \<open>The early returns\<close>

lemma resolveRange_Inl:
  "resolveRange p env request key = (l, Inl r) \<Longrightarrow> r = rangeNotSatisfiable"
  by (auto simp: resolveRange_def
      split: if_splits option.splits range_result.splits list.splits)

lemma mustMatch_Inl:
  "mustMatch env key c file rng = (l, Inl r) \<Longrightarrow> r = preconditionFailed"
  by (auto simp: mustMatch_def Let_def split: if_splits)

lemma mustNotMatch_Inl:
  "mustNotMatch env key c file rng = (l, Inl r) \<Longrightarrow> r = notModified"
  by (auto simp: mustNotMatch_def Let_def split: if_splits)

text \<open>The four ways through \<open>handleCacheable\<close>: one per early return, and the last stage.\<close>

lemma handleCacheable_cases:
  obtains
    (range) l1 where
      "resolveRange p env request key = (l1, Inl rangeNotSatisfiable)"
      "handleCacheable p env request key c = (l1, Inr rangeNotSatisfiable)"
  | (mustMatch) l1 file1 range1 l2 where
      "resolveRange p env request key = (l1, Inr (file1, range1))"
      "mustMatch env key c file1 (ifRangeGate p file1 range1 (ifRange c)) =
         (l2, Inl preconditionFailed)"
      "handleCacheable p env request key c = (l1 @ l2, Inr preconditionFailed)"
  | (mustNotMatch) l1 file1 range1 l2 file2 l3 where
      "resolveRange p env request key = (l1, Inr (file1, range1))"
      "mustMatch env key c file1 (ifRangeGate p file1 range1 (ifRange c)) = (l2, Inr file2)"
      "mustNotMatch env key c file2 (ifRangeGate p file1 range1 (ifRange c)) =
         (l3, Inl notModified)"
      "handleCacheable p env request key c = (l1 @ l2 @ l3, Inr notModified)"
  | (serve) l1 file1 range1 l2 file2 l3 file3 where
      "resolveRange p env request key = (l1, Inr (file1, range1))"
      "mustMatch env key c file1 (ifRangeGate p file1 range1 (ifRange c)) = (l2, Inr file2)"
      "mustNotMatch env key c file2 (ifRangeGate p file1 range1 (ifRange c)) =
         (l3, Inr file3)"
      "handleCacheable p env request key c =
         (l1 @ l2 @ l3 @
            fst (serve p env request key file3 (ifRangeGate p file1 range1 (ifRange c))),
          snd (serve p env request key file3 (ifRangeGate p file1 range1 (ifRange c))))"
proof -
  obtain l1 x1 where r1: "resolveRange p env request key = (l1, x1)"
    by (cases "resolveRange p env request key")
  show thesis
  proof (cases x1)
    case (Inl r)
    with r1 resolveRange_Inl have "r = rangeNotSatisfiable" by blast
    with r1 Inl show thesis using range by (simp add: handleCacheable_def)
  next
    case (Inr fr)
    obtain file1 range1 where fr: "fr = (file1, range1)" by (cases fr)
    let ?rng = "ifRangeGate p file1 range1 (ifRange c)"
    obtain l2 x2 where r2: "mustMatch env key c file1 ?rng = (l2, x2)"
      by (cases "mustMatch env key c file1 ?rng")
    show thesis
    proof (cases x2)
      case (Inl r)
      with r2 mustMatch_Inl have "r = preconditionFailed" by blast
      with r1 r2 Inr fr Inl show thesis using mustMatch by (simp add: handleCacheable_def)
    next
      case i2: (Inr file2)
      obtain l3 x3 where r3: "mustNotMatch env key c file2 ?rng = (l3, x3)"
        by (cases "mustNotMatch env key c file2 ?rng")
      show thesis
      proof (cases x3)
        case (Inl r)
        with r3 mustNotMatch_Inl have "r = notModified" by blast
        with r1 r2 r3 Inr fr i2 Inl show thesis using mustNotMatch
          by (simp add: handleCacheable_def)
      next
        case i3: (Inr file3)
        with r1 r2 r3 Inr fr i2 show thesis using serve
          by (simp add: handleCacheable_def split: prod.splits)
      qed
    qed
  qed
qed

lemma handleCacheable_events:
  assumes "e \<in> set (fst (handleCacheable p env request key c))"
  shows "e = StoreHead key
    \<or> (\<exists>rng. e = StoreGet key (mustMatchOptions c rng) \<and>
              (truthy (ifMatch c) \<or> truthyNum (ifUnmodifiedSince c)))
    \<or> (\<exists>rng. e = StoreGet key (mustNotMatchOptions c rng) \<and>
              (truthy (ifNoneMatch c) \<or> truthyNum (ifModifiedSince c)))
    \<or> (\<exists>rng. e = StoreGet key \<lparr>onlyIf = None, range' = rng\<rparr>)
    \<or> (\<exists>probe. headProbe request = Inr probe \<and> e = OriginFetch probe)
    \<or> e = OriginFetch (missRequest request)
    \<or> (\<exists>b h. e = StorePut key b h)"
proof (cases rule: handleCacheable_cases[of p env request key c])
  case (range l1)
  with assms have "e \<in> set (fst (resolveRange p env request key))" by simp
  then show ?thesis using resolveRange_events by blast
next
  case (mustMatch l1 file1 range1 l2)
  let ?rng = "ifRangeGate p file1 range1 (ifRange c)"
  from mustMatch assms have "e \<in> set l1 \<or> e \<in> set l2" by auto
  then show ?thesis
    using resolveRange_events[of e p env request key] mustMatch(1)
      mustMatch_events[of e env key c file1 ?rng] mustMatch(2) by auto
next
  case (mustNotMatch l1 file1 range1 l2 file2 l3)
  let ?rng = "ifRangeGate p file1 range1 (ifRange c)"
  from mustNotMatch assms have "e \<in> set l1 \<or> e \<in> set l2 \<or> e \<in> set l3" by auto
  then show ?thesis
    using resolveRange_events[of e p env request key] mustNotMatch(1)
      mustMatch_events[of e env key c file1 ?rng] mustNotMatch(2)
      mustNotMatch_events[of e env key c file2 ?rng] mustNotMatch(3) by auto
next
  case (serve l1 file1 range1 l2 file2 l3 file3)
  let ?rng = "ifRangeGate p file1 range1 (ifRange c)"
  from serve assms have "e \<in> set l1 \<or> e \<in> set l2 \<or> e \<in> set l3 \<or>
      e \<in> set (fst (serve p env request key file3 ?rng))" by auto
  then show ?thesis
    using resolveRange_events[of e p env request key] serve(1)
      mustMatch_events[of e env key c file1 ?rng] serve(2)
      mustNotMatch_events[of e env key c file2 ?rng] serve(3)
      serve_events[of e p env request key file3 ?rng] by auto
qed

lemma handleRequest_events:
  assumes "e \<in> set (fst (handleRequest p env request))"
  shows "e = OriginFetch request \<or>
     (\<exists>key. deriveKey p env request = Inr (Some key) \<and>
            e \<in> set (fst (handleCacheable p env request key (conditionalHeaders p request))))"
  using assms by (auto simp: handleRequest_def split: sum.splits option.splits)

lemma handleRequest_cacheable:
  "deriveKey p env request = Inr (Some key) \<Longrightarrow>
     handleRequest p env request =
       handleCacheable p env request key (conditionalHeaders p request)"
  by (simp add: handleRequest_def)

subsection \<open>The stages on an object that is in the store\<close>

lemma r2_get_Some:
  assumes "objs key = Some obj"
  shows "get (r2_bucket objs) key opts =
           Some (if (case onlyIf opts of None \<Rightarrow> True | Some c \<Rightarrow> onlyIfHolds obj c)
                 then served obj (range' opts) else obj\<lparr>obj_body := None\<rparr>)"
  using assms by (simp add: r2_bucket_def r2_get_def)

lemma r2_head_Some:
  assumes "objs key = Some obj"
  shows "head (r2_bucket objs) key = Some (obj\<lparr>obj_body := None\<rparr>)"
  using assms by (simp add: r2_bucket_def r2_head_def)

lemma onlyIf_mustMatchOptions:
  "onlyIf (mustMatchOptions c rng) = onlyIf (mustMatchOptions c None)"
  by (simp add: mustMatchOptions_def)

lemma onlyIf_mustNotMatchOptions:
  "onlyIf (mustNotMatchOptions c rng) = onlyIf (mustNotMatchOptions c None)"
  by (simp add: mustNotMatchOptions_def)

lemma mustMatch_stored:
  assumes "CACHE_BUCKET env = r2_bucket objs" and "objs key = Some obj"
  shows "mustMatch env key c file rng =
           (if truthy (ifMatch c) \<or> truthyNum (ifUnmodifiedSince c)
            then ([StoreGet key (mustMatchOptions c rng)],
                  if mustMatchFails obj c then Inl preconditionFailed
                  else Inr (Some (served obj rng)))
            else ([], Inr file))"
  using assms
  by (simp add: mustMatch_def r2_get_Some mustMatchFails_def mustMatchOptions_def
      hasBody_def served_def Let_def)

lemma mustNotMatch_stored:
  assumes "CACHE_BUCKET env = r2_bucket objs" and "objs key = Some obj"
  shows "mustNotMatch env key c file rng =
           (if truthy (ifNoneMatch c) \<or> truthyNum (ifModifiedSince c)
            then ([StoreGet key (mustNotMatchOptions c rng)],
                  if mustNotMatchFails obj c then Inl notModified
                  else Inr (Some (served obj rng)))
            else ([], Inr file))"
  using assms
  by (simp add: mustNotMatch_def r2_get_Some mustNotMatchFails_def mustNotMatchOptions_def
      hasBody_def served_def Let_def)

lemma resolveRange_file:
  assumes "CACHE_BUCKET env = r2_bucket objs" and "objs key = Some obj"
    and "resolveRange p env request key = (l, Inr (file1, range1))"
  shows "file1 = None \<or> file1 = Some (obj\<lparr>obj_body := None\<rparr>)"
  using assms
  by (auto simp: resolveRange_def r2_head_Some
      split: if_splits option.splits range_result.splits list.splits)

lemma isPrivate_body: "isPrivate (obj\<lparr>obj_body := b\<rparr>) = isPrivate obj"
  by (simp add: isPrivate_def)

text \<open>The last stage on an object that is in the store, whatever the earlier stages hold
  of it: nothing, the metadata, or the object with its body.\<close>

lemma serve_stored:
  assumes "CACHE_BUCKET env = r2_bucket objs" and "objs key = Some obj"
    and "file = None \<or> file = Some (obj\<lparr>obj_body := None\<rparr>) \<or> file = Some (served obj rng)"
  shows "snd (serve p env request key file rng) = privacyGate p env request obj rng"
    and "OriginFetch r \<in> set (fst (serve p env request key file rng)) \<Longrightarrow>
           headProbe request = Inr r \<and> isPrivate obj"
proof -
  from assms(3) consider "file = None" | "file = Some (obj\<lparr>obj_body := None\<rparr>)"
    | "file = Some (served obj rng)" by blast
  then have "snd (serve p env request key file rng) = privacyGate p env request obj rng \<and>
      (OriginFetch r \<in> set (fst (serve p env request key file rng)) \<longrightarrow>
         headProbe request = Inr r \<and> isPrivate obj)"
  proof cases
    case 1
    with assms(1,2) show ?thesis
      by (auto simp: serve_def hit_def r2_get_Some r2_head_Some hasBody_def isPrivate_body
          privacyGate_def split: option.splits sum.splits)
  next
    case 2
    with assms(1,2) show ?thesis
      by (auto simp: serve_def hit_def r2_get_Some r2_head_Some hasBody_def isPrivate_body
          privacyGate_def split: option.splits sum.splits)
  next
    case 3
    with assms(1,2) show ?thesis
      by (auto simp: serve_def hit_def r2_get_Some r2_head_Some hasBody_def isPrivate_body
          privacyGate_def served_def split: option.splits sum.splits)
  qed
  then show "snd (serve p env request key file rng) = privacyGate p env request obj rng"
    and "OriginFetch r \<in> set (fst (serve p env request key file rng)) \<Longrightarrow>
           headProbe request = Inr r \<and> isPrivate obj"
    by blast+
qed

text \<open>The answer of the handler for a key that is in the store.\<close>

lemma mustMatch_stored_Inl:
  assumes "CACHE_BUCKET env = r2_bucket objs" and "objs key = Some obj"
  shows "(\<exists>l r. mustMatch env key c file rng = (l, Inl r)) = mustMatchFails obj c"
  using assms by (auto simp: mustMatch_stored[OF assms] mustMatchFails_def)

lemma mustNotMatch_stored_Inl:
  assumes "CACHE_BUCKET env = r2_bucket objs" and "objs key = Some obj"
  shows "(\<exists>l r. mustNotMatch env key c file rng = (l, Inl r)) = mustNotMatchFails obj c"
  using assms by (auto simp: mustNotMatch_stored[OF assms] mustNotMatchFails_def)

lemma mustMatch_file:
  assumes "CACHE_BUCKET env = r2_bucket objs" and "objs key = Some obj"
    and "mustMatch env key c file rng = (l, Inr file')"
  shows "file' = file \<or> file' = Some (served obj rng)"
  using assms(3) by (auto simp: mustMatch_stored[OF assms(1,2)] split: if_splits)

lemma mustNotMatch_file:
  assumes "CACHE_BUCKET env = r2_bucket objs" and "objs key = Some obj"
    and "mustNotMatch env key c file rng = (l, Inr file')"
  shows "file' = file \<or> file' = Some (served obj rng)"
  using assms(3) by (auto simp: mustNotMatch_stored[OF assms(1,2)] split: if_splits)

lemma handleCacheable_stored:
  assumes store: "CACHE_BUCKET env = r2_bucket objs" "objs key = Some obj"
  shows "snd (handleCacheable p env request key c) =
           (if rangeRejected p env request key then Inr rangeNotSatisfiable
            else if mustMatchFails obj c then Inr preconditionFailed
            else if mustNotMatchFails obj c then Inr notModified
            else privacyGate p env request obj (rangeInEffect p env request key c))"
proof (cases rule: handleCacheable_cases[of p env request key c])
  case (range l1)
  then show ?thesis by (simp add: rangeRejected_def)
next
  case (mustMatch l1 file1 range1 l2)
  have "\<not> rangeRejected p env request key"
    using mustMatch(1) by (simp add: rangeRejected_def)
  moreover have "mustMatchFails obj c"
    using mustMatch_stored_Inl[OF store] mustMatch(2) by blast
  ultimately show ?thesis using mustMatch(3) by simp
next
  case (mustNotMatch l1 file1 range1 l2 file2 l3)
  let ?rng = "ifRangeGate p file1 range1 (ifRange c)"
  have "\<not> rangeRejected p env request key"
    using mustNotMatch(1) by (simp add: rangeRejected_def)
  moreover have "\<not> mustMatchFails obj c"
    using mustMatch_stored_Inl[OF store, of c file1 ?rng] mustNotMatch(2) by auto
  moreover have "mustNotMatchFails obj c"
    using mustNotMatch_stored_Inl[OF store] mustNotMatch(3) by blast
  ultimately show ?thesis using mustNotMatch(4) by simp
next
  case (serve l1 file1 range1 l2 file2 l3 file3)
  let ?rng = "ifRangeGate p file1 range1 (ifRange c)"
  have "\<not> rangeRejected p env request key"
    using serve(1) by (simp add: rangeRejected_def)
  moreover have "\<not> mustMatchFails obj c"
    using mustMatch_stored_Inl[OF store, of c file1 ?rng] serve(2) by auto
  moreover have "\<not> mustNotMatchFails obj c"
    using mustNotMatch_stored_Inl[OF store, of c file2 ?rng] serve(3) by auto
  moreover have "rangeInEffect p env request key c = ?rng"
    using serve(1) by (simp add: rangeInEffect_def)
  moreover have "file3 = None \<or> file3 = Some (obj\<lparr>obj_body := None\<rparr>) \<or>
      file3 = Some (served obj ?rng)"
    using resolveRange_file[OF store serve(1)] mustMatch_file[OF store serve(2)]
      mustNotMatch_file[OF store serve(3)] by auto
  ultimately show ?thesis using serve(4) serve_stored(1)[OF store] by simp
qed

text \<open>For a key that is in the store the only request to the origin is the probe.\<close>

lemma handleCacheable_stored_origin:
  assumes store: "CACHE_BUCKET env = r2_bucket objs" "objs key = Some obj"
    and ev: "OriginFetch r \<in> set (fst (handleCacheable p env request key c))"
  shows "headProbe request = Inr r \<and> isPrivate obj"
proof (cases rule: handleCacheable_cases[of p env request key c])
  case (range l1)
  with ev resolveRange_events[of "OriginFetch r" p env request key] show ?thesis by auto
next
  case (mustMatch l1 file1 range1 l2)
  let ?rng = "ifRangeGate p file1 range1 (ifRange c)"
  from mustMatch ev have "OriginFetch r \<in> set l1 \<or> OriginFetch r \<in> set l2" by auto
  then show ?thesis
    using resolveRange_events[of "OriginFetch r" p env request key] mustMatch(1)
      mustMatch_events[of "OriginFetch r" env key c file1 ?rng] mustMatch(2) by auto
next
  case (mustNotMatch l1 file1 range1 l2 file2 l3)
  let ?rng = "ifRangeGate p file1 range1 (ifRange c)"
  from mustNotMatch ev have "OriginFetch r \<in> set l1 \<or> OriginFetch r \<in> set l2 \<or>
      OriginFetch r \<in> set l3" by auto
  then show ?thesis
    using resolveRange_events[of "OriginFetch r" p env request key] mustNotMatch(1)
      mustMatch_events[of "OriginFetch r" env key c file1 ?rng] mustNotMatch(2)
      mustNotMatch_events[of "OriginFetch r" env key c file2 ?rng] mustNotMatch(3) by auto
next
  case (serve l1 file1 range1 l2 file2 l3 file3)
  let ?rng = "ifRangeGate p file1 range1 (ifRange c)"
  have f1: "file1 = None \<or> file1 = Some (obj\<lparr>obj_body := None\<rparr>)"
    using resolveRange_file[OF store serve(1)] .
  have f2: "file2 = file1 \<or> file2 = Some (served obj ?rng)"
    using mustMatch_file[OF store serve(2)] .
  have f3: "file3 = file2 \<or> file3 = Some (served obj ?rng)"
    using mustNotMatch_file[OF store serve(3)] .
  from f1 f2 f3 have f: "file3 = None \<or> file3 = Some (obj\<lparr>obj_body := None\<rparr>) \<or>
      file3 = Some (served obj ?rng)" by auto
  from serve ev have "OriginFetch r \<in> set l1 \<or> OriginFetch r \<in> set l2 \<or>
      OriginFetch r \<in> set l3 \<or>
      OriginFetch r \<in> set (fst (serve p env request key file3 ?rng))" by auto
  then show ?thesis
    using resolveRange_events[of "OriginFetch r" p env request key] serve(1)
      mustMatch_events[of "OriginFetch r" env key c file1 ?rng] serve(2)
      mustNotMatch_events[of "OriginFetch r" env key c file2 ?rng] serve(3)
      serve_stored(2)[OF store f] by auto
qed


subsection \<open>The conditional gets on an object that is in the store\<close>

lemma mustMatchFails_etag:
  "ifMatch c = Some v \<Longrightarrow> v \<noteq> [] \<Longrightarrow> etag obj \<noteq> v \<Longrightarrow> mustMatchFails obj c"
  by (simp add: mustMatchFails_def mustMatchOptions_def onlyIfHolds_def truthy_def)

lemma mustNotMatchFails_etag:
  "ifNoneMatch c = Some v \<Longrightarrow> v \<noteq> [] \<Longrightarrow> mustNotMatchFails obj c = (etag obj = v)"
  by (simp add: mustNotMatchFails_def mustNotMatchOptions_def onlyIfHolds_def truthy_def)

lemma mustNotMatchOptions_etag:
  "ifNoneMatch c = Some v \<Longrightarrow> v \<noteq> [] \<Longrightarrow>
     mustNotMatchOptions c rng =
       \<lparr>onlyIf = Some \<lparr>etagMatches = None, etagDoesNotMatch = Some v,
                       uploadedBefore = None, uploadedAfter = None\<rparr>,
        range' = rng\<rparr>"
  by (simp add: mustNotMatchOptions_def truthy_def)

lemma privacyGate_not_notModified:
  "privacyGate p env request obj rng \<noteq> Inr notModified"
  by (auto simp: privacyGate_def hitResponse_def notModified_def badRequest_def
      split: sum.splits option.splits)

lemma privacyGate_hit:
  assumes "\<not> isPrivate obj \<or>
     (\<exists>probe r. headProbe request = Inr probe \<and> fetch p probe = Some r \<and>
                (status r < 300 \<or> status r = 304))"
  shows "privacyGate p env request obj rng = Inr (hitResponse p env (served obj rng) rng)"
  using assms by (auto simp: privacyGate_def)

text \<open>When the must-match group fails, the bucket has been asked for the head of range
  resolution and for the conditional get of the group, and nothing else has happened.\<close>

lemma handleCacheable_stored_412_log:
  assumes store: "CACHE_BUCKET env = r2_bucket objs" "objs key = Some obj"
    and fails: "mustMatchFails obj c"
  shows "\<forall>e \<in> set (fst (handleCacheable p env request key c)).
           e = StoreHead key \<or>
           e = StoreGet key (mustMatchOptions c (rangeInEffect p env request key c))"
proof (cases rule: handleCacheable_cases[of p env request key c])
  case (range l1)
  then show ?thesis using resolveRange_events[of _ p env request key] by simp
next
  case (mustMatch l1 file1 range1 l2)
  let ?rng = "ifRangeGate p file1 range1 (ifRange c)"
  have "rangeInEffect p env request key c = ?rng"
    using mustMatch(1) by (simp add: rangeInEffect_def)
  moreover have "\<forall>e \<in> set l2. e = StoreGet key (mustMatchOptions c ?rng)"
    using mustMatch_events[of _ env key c file1 ?rng] mustMatch(2) by simp
  moreover have "\<forall>e \<in> set l1. e = StoreHead key"
    using resolveRange_events[of _ p env request key] mustMatch(1) by simp
  ultimately show ?thesis using mustMatch(3) by auto
next
  case (mustNotMatch l1 file1 range1 l2 file2 l3)
  let ?rng = "ifRangeGate p file1 range1 (ifRange c)"
  have "\<not> mustMatchFails obj c"
    using mustMatch_stored_Inl[OF store, of c file1 ?rng] mustNotMatch(2) by auto
  with fails show ?thesis by simp
next
  case (serve l1 file1 range1 l2 file2 l3 file3)
  let ?rng = "ifRangeGate p file1 range1 (ifRange c)"
  have "\<not> mustMatchFails obj c"
    using mustMatch_stored_Inl[OF store, of c file1 ?rng] serve(2) by auto
  with fails show ?thesis by simp
qed

lemma handleCacheable_stored_mustMatch_get:
  assumes store: "CACHE_BUCKET env = r2_bucket objs" "objs key = Some obj"
    and passed: "\<not> rangeRejected p env request key"
    and fails: "mustMatchFails obj c"
  shows "StoreGet key (mustMatchOptions c (rangeInEffect p env request key c))
           \<in> set (fst (handleCacheable p env request key c))"
proof (cases rule: handleCacheable_cases[of p env request key c])
  case (range l1)
  with passed show ?thesis by (simp add: rangeRejected_def)
next
  case (mustMatch l1 file1 range1 l2)
  let ?rng = "ifRangeGate p file1 range1 (ifRange c)"
  have "rangeInEffect p env request key c = ?rng"
    using mustMatch(1) by (simp add: rangeInEffect_def)
  moreover have "l2 = [StoreGet key (mustMatchOptions c ?rng)]"
    using mustMatch(2) fails by (simp add: mustMatch_stored[OF store] mustMatchFails_def)
  ultimately show ?thesis using mustMatch(3) by simp
next
  case (mustNotMatch l1 file1 range1 l2 file2 l3)
  let ?rng = "ifRangeGate p file1 range1 (ifRange c)"
  have "\<not> mustMatchFails obj c"
    using mustMatch_stored_Inl[OF store, of c file1 ?rng] mustNotMatch(2) by auto
  with fails show ?thesis by simp
next
  case (serve l1 file1 range1 l2 file2 l3 file3)
  let ?rng = "ifRangeGate p file1 range1 (ifRange c)"
  have "\<not> mustMatchFails obj c"
    using mustMatch_stored_Inl[OF store, of c file1 ?rng] serve(2) by auto
  with fails show ?thesis by simp
qed

text \<open>When the first two stages let the request through and the must-not-match group is in
  effect, its conditional get is issued.\<close>

lemma handleCacheable_stored_mustNotMatch_get:
  assumes store: "CACHE_BUCKET env = r2_bucket objs" "objs key = Some obj"
    and passed: "\<not> rangeRejected p env request key" "\<not> mustMatchFails obj c"
    and group: "truthy (ifNoneMatch c) \<or> truthyNum (ifModifiedSince c)"
  shows "StoreGet key (mustNotMatchOptions c (rangeInEffect p env request key c))
           \<in> set (fst (handleCacheable p env request key c))"
proof (cases rule: handleCacheable_cases[of p env request key c])
  case (range l1)
  with passed show ?thesis by (simp add: rangeRejected_def)
next
  case (mustMatch l1 file1 range1 l2)
  have "mustMatchFails obj c"
    using mustMatch_stored_Inl[OF store] mustMatch(2) by blast
  with passed show ?thesis by simp
next
  case (mustNotMatch l1 file1 range1 l2 file2 l3)
  let ?rng = "ifRangeGate p file1 range1 (ifRange c)"
  have "rangeInEffect p env request key c = ?rng"
    using mustNotMatch(1) by (simp add: rangeInEffect_def)
  moreover have "l3 = [StoreGet key (mustNotMatchOptions c ?rng)]"
    using mustNotMatch(3) group by (simp add: mustNotMatch_stored[OF store] split: if_splits)
  ultimately show ?thesis using mustNotMatch(4) by simp
next
  case (serve l1 file1 range1 l2 file2 l3 file3)
  let ?rng = "ifRangeGate p file1 range1 (ifRange c)"
  have "rangeInEffect p env request key c = ?rng"
    using serve(1) by (simp add: rangeInEffect_def)
  moreover have "l3 = [StoreGet key (mustNotMatchOptions c ?rng)]"
    using serve(3) group by (simp add: mustNotMatch_stored[OF store] split: if_splits)
  ultimately show ?thesis using serve(4) by simp
qed

subsection \<open>Timestamps that are zero\<close>

lemma mustMatch_ifModifiedSince:
  "mustMatch env key (c\<lparr>ifModifiedSince := x\<rparr>) = mustMatch env key c"
  by (simp add: mustMatch_def mustMatchOptions_def fun_eq_iff Let_def)

lemma mustNotMatch_ifUnmodifiedSince:
  "mustNotMatch env key (c\<lparr>ifUnmodifiedSince := x\<rparr>) = mustNotMatch env key c"
  by (simp add: mustNotMatch_def mustNotMatchOptions_def fun_eq_iff Let_def)

lemma mustNotMatch_zero:
  "mustNotMatch env key (c\<lparr>ifModifiedSince := Some 0\<rparr>) =
   mustNotMatch env key (c\<lparr>ifModifiedSince := None\<rparr>)"
  by (simp add: mustNotMatch_def mustNotMatchOptions_def truthyNum_def fun_eq_iff Let_def)

lemma mustMatch_zero:
  "mustMatch env key (c\<lparr>ifUnmodifiedSince := Some 0\<rparr>) =
   mustMatch env key (c\<lparr>ifUnmodifiedSince := None\<rparr>)"
  by (simp add: mustMatch_def mustMatchOptions_def truthyNum_def fun_eq_iff Let_def)

lemma handleCacheable_ifModifiedSince_zero:
  "handleCacheable p env request key (c\<lparr>ifModifiedSince := Some 0\<rparr>) =
   handleCacheable p env request key (c\<lparr>ifModifiedSince := None\<rparr>)"
  by (simp add: handleCacheable_def mustMatch_ifModifiedSince mustNotMatch_zero Let_def
      cong: prod.case_cong sum.case_cong)

lemma handleCacheable_ifUnmodifiedSince_zero:
  "handleCacheable p env request key (c\<lparr>ifUnmodifiedSince := Some 0\<rparr>) =
   handleCacheable p env request key (c\<lparr>ifUnmodifiedSince := None\<rparr>)"
  by (simp add: handleCacheable_def mustNotMatch_ifUnmodifiedSince mustMatch_zero Let_def
      cong: prod.case_cong sum.case_cong)

lemma conditional_gets_of_zero:
  assumes "StoreGet k opts \<in> set (fst (handleRequest p env request))"
    and "onlyIf opts = Some cnd"
  shows "Date_parse p (orEmpty (headers request ''if-modified-since'')) = Some 0 \<longrightarrow>
           uploadedAfter cnd = None"
    and "Date_parse p (orEmpty (headers request ''if-unmodified-since'')) = Some 0 \<longrightarrow>
           uploadedBefore cnd = None"
proof -
  let ?c = "conditionalHeaders p request"
  from handleRequest_events[OF assms(1)] obtain key where
    "StoreGet k opts \<in> set (fst (handleCacheable p env request key ?c))" by auto
  from handleCacheable_events[OF this] assms(2)
  show "Date_parse p (orEmpty (headers request ''if-modified-since'')) = Some 0 \<longrightarrow>
           uploadedAfter cnd = None"
    and "Date_parse p (orEmpty (headers request ''if-unmodified-since'')) = Some 0 \<longrightarrow>
           uploadedBefore cnd = None"
    by (auto simp: mustMatchOptions_def mustNotMatchOptions_def conditionalHeaders_def
        truthyNum_def split: if_splits)
qed

section \<open>The claims\<close>

subsection \<open>C1: requests forwarded to the origin\<close>

text \<open>
  C1, evaluated on the handler. The claim says that every request forwarded to the origin
  has the configured origin host \<^verbatim>\<open>IMAGE_HOST\<close> as its target host. The handler writes
  \<^verbatim>\<open>url.host = env.IMAGE_HOST\<close> (line 46) on a local copy of the URL, which is only read
  for its path and its query, and forwards \<^verbatim>\<open>request\<close> (lines 51, 130 and 162). With
  \<^verbatim>\<open>IMAGE_HOST\<close> set to \<^verbatim>\<open>origin.example\<close> and a request for \<^verbatim>\<open>cdn.example\<close>, the request
  that is forwarded on the bypass (a DELETE), on a miss (a GET of an object that is not
  stored) and on the revalidation probe (a GET of a private object) still has the host
  \<^verbatim>\<open>cdn.example\<close>.
\<close>

theorem forwarded_request_keeps_incoming_host:
  "IMAGE_HOST empty_env = ''origin.example'' \<and>
   IMAGE_HOST private_env = ''origin.example'' \<and>
   fst (handleRequest sample_platform empty_env (sample_request ''DELETE'' no_headers)) =
     [OriginFetch (sample_request ''DELETE'' no_headers)] \<and>
   host (url (sample_request ''DELETE'' no_headers)) = ''cdn.example'' \<and>
   fst (handleRequest sample_platform empty_env (sample_request ''GET'' no_headers)) =
     [StoreHead ''img/a.png'',
      OriginFetch (missRequest (sample_request ''GET'' no_headers)),
      StorePut ''img/a.png'' (Some ''XYZ'') [(''content-type'', ''image/png'')]] \<and>
   host (url (missRequest (sample_request ''GET'' no_headers))) = ''cdn.example'' \<and>
   fst (handleRequest sample_platform private_env (sample_request ''GET'' no_headers)) =
     [StoreHead ''img/a.png'',
      OriginFetch ((sample_request ''GET'' no_headers)
                     \<lparr>method' := ''HEAD'', redirect := ''manual''\<rparr>),
      StoreGet ''img/a.png'' \<lparr>onlyIf = None, range' = None\<rparr>] \<and>
   host (url ((sample_request ''GET'' no_headers)
                \<lparr>method' := ''HEAD'', redirect := ''manual''\<rparr>)) = ''cdn.example''"
  by (simp add: model_defs sample_defs)

subsection \<open>C2: the path component of the cache key\<close>

text \<open>
  C2, as amended. For every cacheable request (method GET, HEAD or POST whose decoded
  path, without its first character, matches the method's pattern with a non-empty
  match), the path component of the cache key is the whole matched text, element 0 of the
  result of \<^verbatim>\<open>exec\<close>, whatever the capture groups are.
\<close>

theorem cache_key_is_whole_match:
  assumes "RegExp p (IMAGE_REGEX env) = Some re"
    and "RegExp p (IMAGE_REGEX_POST env) = Some rePOST"
    and "decodeURIComponent p (pathname (url request)) = Some decoded"
    and "(if method' request = ''POST'' then rePOST else re) (drop 1 decoded) =
           Some (m # groups)"
    and "method' request \<in> set [''GET'', ''HEAD'', ''POST'']"
    and "m \<noteq> []"
  shows "deriveKey p env request = Inr (Some (m @ paramsSuffix p env (url request)))"
  using assms by (simp add: deriveKey_def matchOf_def cacheable_def truthy_def orEmpty_def)

text \<open>Witness of C2: the sample request, whose match is \<^verbatim>\<open>img/a.png\<close> with the group
  \<^verbatim>\<open>a.png\<close>.\<close>

theorem cache_key_is_whole_match_witness:
  "RegExp sample_platform (IMAGE_REGEX empty_env) = Some img_regex \<and>
   RegExp sample_platform (IMAGE_REGEX_POST empty_env) = Some img_regex \<and>
   decodeURIComponent sample_platform (pathname (url (sample_request ''GET'' no_headers))) =
     Some ''/img/a.png'' \<and>
   img_regex (drop 1 ''/img/a.png'') = Some [''img/a.png'', ''a.png''] \<and>
   deriveKey sample_platform empty_env (sample_request ''GET'' no_headers) =
     Inr (Some (''img/a.png'' @
        paramsSuffix sample_platform empty_env
          (url (sample_request ''GET'' no_headers))))"
proof -
  have h1: "RegExp sample_platform (IMAGE_REGEX empty_env) = Some img_regex"
    and h2: "RegExp sample_platform (IMAGE_REGEX_POST empty_env) = Some img_regex"
    and h3: "decodeURIComponent sample_platform
               (pathname (url (sample_request ''GET'' no_headers))) = Some ''/img/a.png''"
    and h4: "(if method' (sample_request ''GET'' no_headers) = ''POST'' then img_regex
              else img_regex) (drop 1 ''/img/a.png'') = Some [''img/a.png'', ''a.png'']"
    and h5: "method' (sample_request ''GET'' no_headers) \<in> set [''GET'', ''HEAD'', ''POST'']"
    and h6: "''img/a.png'' \<noteq> []"
    by (simp_all add: sample_defs startsWith_def)
  from cache_key_is_whole_match[OF h1 h2 h3 h4 h5 h6] h1 h2 h3 h4 show ?thesis by simp
qed

text \<open>
  Counterexample to C2 as stated: the pattern \<^verbatim>\<open>^img/(.+)$\<close> on \<^verbatim>\<open>/img/a.png\<close> has
  the first capture group \<^verbatim>\<open>a.png\<close>, and the key is \<^verbatim>\<open>img/a.png\<close>.
\<close>

theorem cache_key_not_capture_group_counterexample:
  "RegExp sample_platform (IMAGE_REGEX empty_env) = Some img_regex \<and>
   img_regex (drop 1 (pathname (url (sample_request ''GET'' no_headers)))) =
     Some [''img/a.png'', ''a.png''] \<and>
   deriveKey sample_platform empty_env (sample_request ''GET'' no_headers) =
     Inr (Some ''img/a.png'') \<and>
   deriveKey sample_platform empty_env (sample_request ''GET'' no_headers) \<noteq>
     Inr (Some ''a.png'')"
  by (simp add: model_defs sample_defs)

subsection \<open>C3: If-Range\<close>

text \<open>
  C3, evaluated on the handler. The claim says that an If-Range date strictly older than
  the object's upload time (the object has changed since) makes the handler discard the
  range, and that a date not older than the upload time keeps it. Line 97 compares the
  other way round, \<^verbatim>\<open>new Date(maybeDate) > file.uploaded\<close>. The stored object was uploaded
  on 22 October 2015: with an If-Range of 21 October the handler keeps the range and
  answers 206 with the ten bytes, with an If-Range of 23 October it discards the range
  and answers 200 with the whole body.
\<close>

theorem if_range_date_compared_backwards:
  "Date_parse sample_platform ''Wed, 21 Oct 2015 07:28:00 GMT'' = Some 1445412480000 \<and>
   Date_parse sample_platform ''Fri, 23 Oct 2015 07:28:00 GMT'' = Some 1445585280000 \<and>
   uploaded public_object = 1445498880000 \<and>
   ''Wed, 21 Oct 2015 07:28:00 GMT'' \<noteq> httpEtag public_object \<and>
   ifRangeGate sample_platform (Some public_object) (Some (OffsetLength 0 10))
     (Some ''Wed, 21 Oct 2015 07:28:00 GMT'') = Some (OffsetLength 0 10) \<and>
   ifRangeGate sample_platform (Some public_object) (Some (OffsetLength 0 10))
     (Some ''Fri, 23 Oct 2015 07:28:00 GMT'') = None \<and>
   snd (handleRequest sample_platform public_env
          (sample_request ''GET''
            (hdr2 ''range'' ''bytes=0-9'' ''if-range'' ''Wed, 21 Oct 2015 07:28:00 GMT''))) =
     Inr (hitResponse sample_platform public_env
            (served public_object (Some (OffsetLength 0 10))) (Some (OffsetLength 0 10))) \<and>
   snd (handleRequest sample_platform public_env
          (sample_request ''GET''
            (hdr2 ''range'' ''bytes=0-9'' ''if-range'' ''Fri, 23 Oct 2015 07:28:00 GMT''))) =
     Inr (hitResponse sample_platform public_env
            (served public_object None) None)"
  by (simp add: model_defs sample_defs)


subsection \<open>C4: a Range header on an object that is not stored\<close>

text \<open>
  C4, as amended. For every cacheable request carrying a Range header whose cache key has
  no object in the store, the response is never the handler's 400: it is 412 when If-Match
  or If-Unmodified-Since is in effect, else 304 when If-None-Match or If-Modified-Since is
  in effect, and otherwise the request is forwarded to the origin as a miss, without its
  Range header, and the response is the origin's (521 when the origin cannot be reached).
\<close>

theorem range_on_absent_object_is_forwarded:
  assumes key: "deriveKey p env request = Inr (Some key)"
    and rh: "truthy (headers request ''range'')"
    and absent: "head (CACHE_BUCKET env) key = None"
      "\<forall>opts. get (CACHE_BUCKET env) key opts = None"
  shows "snd (handleRequest p env request) =
           (if truthy (ifMatch (conditionalHeaders p request)) \<or>
               truthyNum (ifUnmodifiedSince (conditionalHeaders p request))
            then Inr preconditionFailed
            else if truthy (ifNoneMatch (conditionalHeaders p request)) \<or>
                    truthyNum (ifModifiedSince (conditionalHeaders p request))
            then Inr notModified
            else Inr (case fetch p (missRequest request) of
                        None \<Rightarrow> originDown | Some r \<Rightarrow> r)) \<and>
         (\<not> truthy (ifMatch (conditionalHeaders p request)) \<and>
          \<not> truthyNum (ifUnmodifiedSince (conditionalHeaders p request)) \<and>
          \<not> truthy (ifNoneMatch (conditionalHeaders p request)) \<and>
          \<not> truthyNum (ifModifiedSince (conditionalHeaders p request)) \<longrightarrow>
          OriginFetch (missRequest request) \<in> set (fst (handleRequest p env request))) \<and>
         headers (missRequest request) ''range'' = None"
proof -
  let ?c = "conditionalHeaders p request"
  have hr: "handleRequest p env request = handleCacheable p env request key ?c"
    using key by (rule handleRequest_cacheable)
  have rr: "snd (resolveRange p env request key) = Inr (None, None)"
    using absent by (auto simp: resolveRange_def split: option.splits)
  then obtain l1 where r1: "resolveRange p env request key = (l1, Inr (None, None))"
    by (cases "resolveRange p env request key") auto
  have gate: "ifRangeGate p None None x = None" for x
    by (simp add: ifRangeGate_def)
  have mm: "mustMatch env key ?c None None =
      (if truthy (ifMatch ?c) \<or> truthyNum (ifUnmodifiedSince ?c)
       then ([StoreGet key (mustMatchOptions ?c None)], Inl preconditionFailed)
       else ([], Inr None))"
    using absent by (simp add: mustMatch_def hasBody_def Let_def)
  have mnm: "mustNotMatch env key ?c None None =
      (if truthy (ifNoneMatch ?c) \<or> truthyNum (ifModifiedSince ?c)
       then ([StoreGet key (mustNotMatchOptions ?c None)], Inl notModified)
       else ([], Inr None))"
    using absent by (simp add: mustNotMatch_def hasBody_def Let_def)
  have sv: "serve p env request key None None =
      ([StoreHead key] @ fst (miss p request key), Inr (snd (miss p request key)))"
    using absent by (simp add: serve_def)
  have ms: "snd (miss p request key) =
              (case fetch p (missRequest request) of None \<Rightarrow> originDown | Some r \<Rightarrow> r)"
    "OriginFetch (missRequest request) \<in> set (fst (miss p request key))"
    by (auto simp: miss_def split: option.splits)
  have "headers (missRequest request) ''range'' = None"
    by (simp add: missRequest_def)
  then show ?thesis
    using ms by (simp add: hr handleCacheable_def r1 gate mm mnm sv)
qed

text \<open>Witness of C4: a ranged GET on the empty store is answered by the origin.\<close>

theorem range_on_absent_object_is_forwarded_witness:
  "deriveKey sample_platform empty_env (sample_request ''GET'' (hdr ''range'' ''bytes=0-9'')) =
     Inr (Some ''img/a.png'') \<and>
   truthy (headers (sample_request ''GET'' (hdr ''range'' ''bytes=0-9'')) ''range'') \<and>
   head (CACHE_BUCKET empty_env) ''img/a.png'' = None \<and>
   (\<forall>opts. get (CACHE_BUCKET empty_env) ''img/a.png'' opts = None) \<and>
   snd (handleRequest sample_platform empty_env
          (sample_request ''GET'' (hdr ''range'' ''bytes=0-9''))) =
     Inr \<lparr>status = 200, resp_body = Some ''XYZ'',
          resp_headers = [(''content-type'', ''image/png'')]\<rparr> \<and>
   OriginFetch (missRequest (sample_request ''GET'' (hdr ''range'' ''bytes=0-9'')))
     \<in> set (fst (handleRequest sample_platform empty_env
                   (sample_request ''GET'' (hdr ''range'' ''bytes=0-9''))))"
proof -
  let ?R = "sample_request ''GET'' (hdr ''range'' ''bytes=0-9'')"
  have h1: "deriveKey sample_platform empty_env ?R = Inr (Some ''img/a.png'')"
    and h2: "truthy (headers ?R ''range'')"
    and h3: "head (CACHE_BUCKET empty_env) ''img/a.png'' = None"
    and h4: "\<forall>opts. get (CACHE_BUCKET empty_env) ''img/a.png'' opts = None"
    by (simp_all add: model_defs sample_defs)
  have c: "\<not> truthy (ifMatch (conditionalHeaders sample_platform ?R))"
    "\<not> truthyNum (ifUnmodifiedSince (conditionalHeaders sample_platform ?R))"
    "\<not> truthy (ifNoneMatch (conditionalHeaders sample_platform ?R))"
    "\<not> truthyNum (ifModifiedSince (conditionalHeaders sample_platform ?R))"
    by (simp_all add: model_defs sample_defs)
  have f: "fetch sample_platform (missRequest ?R) =
      Some \<lparr>status = 200, resp_body = Some ''XYZ'',
            resp_headers = [(''content-type'', ''image/png'')]\<rparr>"
    by (simp add: model_defs sample_defs)
  from range_on_absent_object_is_forwarded[OF h1 h2 h3 h4] c f h1 h2 h3 h4
  show ?thesis by simp
qed

text \<open>
  Counterexample to C4 as stated: a GET with \<^verbatim>\<open>range: bytes=0-9\<close> on the empty store
  is forwarded to the origin and answered with the origin's 200; the body is then stored.
\<close>

theorem range_on_absent_object_counterexample:
  "handleRequest sample_platform empty_env
     (sample_request ''GET'' (hdr ''range'' ''bytes=0-9'')) =
   ([StoreHead ''img/a.png'', StoreHead ''img/a.png'',
     OriginFetch (missRequest (sample_request ''GET'' (hdr ''range'' ''bytes=0-9''))),
     StorePut ''img/a.png'' (Some ''XYZ'') [(''content-type'', ''image/png'')]],
    Inr \<lparr>status = 200, resp_body = Some ''XYZ'',
         resp_headers = [(''content-type'', ''image/png'')]\<rparr>) \<and>
   empty_store ''img/a.png'' = None \<and>
   status badRequest = 400"
  by (simp add: model_defs sample_defs badRequest_def)

subsection \<open>C5: a Range header that does not resolve to one byte range\<close>

text \<open>
  C5, as amended. For every cacheable GET request whose cache key has an object in the
  store and whose Range header parses, against the object's size, to more than one range
  (or none), to a unit other than bytes, or to an error (unsatisfiable or malformed), the
  response is 416 and nothing else is done: no further store call, no origin request, no
  full-body response.
\<close>

theorem bad_range_on_stored_object_is_416:
  assumes "deriveKey p env request = Inr (Some key)"
    and "method' request = ''GET''"
    and "headers request ''range'' = Some h" and "h \<noteq> []"
    and "head (CACHE_BUCKET env) key = Some f"
    and "parseRange p (size' f) h = Unsatisfiable \<or> parseRange p (size' f) h = Malformed \<or>
         (\<exists>t rs. parseRange p (size' f) h = Ranges t rs \<and> (length rs \<noteq> 1 \<or> t \<noteq> ''bytes''))"
  shows "handleRequest p env request = ([StoreHead key], Inr rangeNotSatisfiable)"
  using assms
  by (auto simp: handleRequest_def handleCacheable_def resolveRange_def split: list.splits)

text \<open>Witness of C5: a GET for two ranges of a stored object.\<close>

theorem bad_range_on_stored_object_is_416_witness:
  "deriveKey sample_platform public_env
     (sample_request ''GET'' (hdr ''range'' ''bytes=0-1,5-6'')) = Inr (Some ''img/a.png'') \<and>
   method' (sample_request ''GET'' (hdr ''range'' ''bytes=0-1,5-6'')) = ''GET'' \<and>
   headers (sample_request ''GET'' (hdr ''range'' ''bytes=0-1,5-6'')) ''range'' =
     Some ''bytes=0-1,5-6'' \<and>
   head (CACHE_BUCKET public_env) ''img/a.png'' = Some (public_object\<lparr>obj_body := None\<rparr>) \<and>
   parseRange sample_platform (size' (public_object\<lparr>obj_body := None\<rparr>)) ''bytes=0-1,5-6'' =
     Ranges ''bytes'' [(0, 1), (5, 6)] \<and>
   handleRequest sample_platform public_env
     (sample_request ''GET'' (hdr ''range'' ''bytes=0-1,5-6'')) =
     ([StoreHead ''img/a.png''], Inr rangeNotSatisfiable) \<and>
   status rangeNotSatisfiable = 416"
proof -
  let ?R = "sample_request ''GET'' (hdr ''range'' ''bytes=0-1,5-6'')"
  let ?f = "public_object\<lparr>obj_body := None\<rparr>"
  have h1: "deriveKey sample_platform public_env ?R = Inr (Some ''img/a.png'')"
    and h2: "method' ?R = ''GET''"
    and h3: "headers ?R ''range'' = Some ''bytes=0-1,5-6''"
    and h4: "''bytes=0-1,5-6'' \<noteq> []"
    and h5: "head (CACHE_BUCKET public_env) ''img/a.png'' = Some ?f"
    and pr: "parseRange sample_platform (size' ?f) ''bytes=0-1,5-6'' =
               Ranges ''bytes'' [(0, 1), (5, 6)]"
    by (simp_all add: model_defs sample_defs)
  from pr have h6: "parseRange sample_platform (size' ?f) ''bytes=0-1,5-6'' = Unsatisfiable \<or>
      parseRange sample_platform (size' ?f) ''bytes=0-1,5-6'' = Malformed \<or>
      (\<exists>t rs. parseRange sample_platform (size' ?f) ''bytes=0-1,5-6'' = Ranges t rs \<and>
          (length rs \<noteq> 1 \<or> t \<noteq> ''bytes''))"
    by simp
  from bad_range_on_stored_object_is_416[OF h1 h2 h3 h4 h5 h6] h1 h2 h3 h5 pr
  show ?thesis by (simp add: rangeNotSatisfiable_def)
qed

text \<open>
  Counterexample to C5 as stated: the same two ranges on a HEAD request. The handler reads
  the Range header of GET requests only, and answers the HEAD with the 200 of a hit.
\<close>

theorem bad_range_on_head_request_counterexample:
  "parseRange sample_platform (size' public_object) ''bytes=0-1,5-6'' =
     Ranges ''bytes'' [(0, 1), (5, 6)] \<and>
   snd (handleRequest sample_platform public_env
          (sample_request ''HEAD'' (hdr ''range'' ''bytes=0-1,5-6''))) =
     Inr (hitResponse sample_platform public_env (served public_object None) None) \<and>
   status (hitResponse sample_platform public_env (served public_object None) None) = 200"
  by (simp add: model_defs sample_defs hitResponse_def)

subsection \<open>C6: If-Match that differs from the stored entity-tag\<close>

text \<open>
  C6, as amended. For every cacheable request whose key is in the store and that presents
  a non-empty If-Match entity-tag different from the stored object's entity-tag: when
  range resolution rejects the Range header the response is the 416, and otherwise it has
  status 412 and the body text \<^verbatim>\<open>Precondition Failed\<close>, after the conditional get of the
  must-match group, keyed on the presented entity-tag. In both cases the only calls made
  are the head of range resolution and that conditional get: no request to the origin and
  no must-not-match evaluation.
\<close>

theorem if_match_mismatch_is_412:
  assumes key: "deriveKey p env request = Inr (Some key)"
    and store: "CACHE_BUCKET env = r2_bucket objs" "objs key = Some obj"
    and im: "getHeaderEtag p (headers request ''if-match'') = Some v" "v \<noteq> []"
    and differs: "etag obj \<noteq> v"
  shows "snd (handleRequest p env request) =
           (if rangeRejected p env request key then Inr rangeNotSatisfiable
            else Inr preconditionFailed) \<and>
         status preconditionFailed = 412 \<and>
         resp_body preconditionFailed = Some ''Precondition Failed'' \<and>
         (\<not> rangeRejected p env request key \<longrightarrow>
            StoreGet key
              (mustMatchOptions (conditionalHeaders p request)
                 (rangeInEffect p env request key (conditionalHeaders p request)))
              \<in> set (fst (handleRequest p env request))) \<and>
         map_option etagMatches
           (onlyIf (mustMatchOptions (conditionalHeaders p request)
              (rangeInEffect p env request key (conditionalHeaders p request)))) =
           Some (Some v) \<and>
         (\<forall>e \<in> set (fst (handleRequest p env request)).
            e = StoreHead key \<or>
            e = StoreGet key
                  (mustMatchOptions (conditionalHeaders p request)
                     (rangeInEffect p env request key (conditionalHeaders p request))))"
proof -
  let ?c = "conditionalHeaders p request"
  have hr: "handleRequest p env request = handleCacheable p env request key ?c"
    using key by (rule handleRequest_cacheable)
  have c: "ifMatch ?c = Some v" using im by (simp add: conditionalHeaders_def)
  have fails: "mustMatchFails obj ?c"
    using c im(2) differs by (rule mustMatchFails_etag)
  have res: "snd (handleRequest p env request) =
           (if rangeRejected p env request key then Inr rangeNotSatisfiable
            else Inr preconditionFailed)"
    using fails by (simp add: hr handleCacheable_stored[OF store])
  have issued: "StoreGet key (mustMatchOptions ?c (rangeInEffect p env request key ?c))
      \<in> set (fst (handleRequest p env request))"
    if "\<not> rangeRejected p env request key"
    using handleCacheable_stored_mustMatch_get[OF store that fails] by (simp add: hr)
  have keyed: "map_option etagMatches (onlyIf (mustMatchOptions ?c
      (rangeInEffect p env request key ?c))) = Some (Some v)"
    using c by (simp add: mustMatchOptions_def)
  have only: "\<forall>e \<in> set (fst (handleRequest p env request)).
      e = StoreHead key \<or>
      e = StoreGet key (mustMatchOptions ?c (rangeInEffect p env request key ?c))"
    using handleCacheable_stored_412_log[OF store fails] by (simp add: hr)
  from res issued keyed only show ?thesis by (simp add: preconditionFailed_def)
qed

text \<open>Witness of C6: If-Match \<^verbatim>\<open>"xyz"\<close> on the stored object, whose entity-tag is
  \<^verbatim>\<open>abc\<close>.\<close>

theorem if_match_mismatch_is_412_witness:
  "deriveKey sample_platform public_env
     (sample_request ''GET'' (hdr ''if-match'' (quoted ''xyz''))) = Inr (Some ''img/a.png'') \<and>
   CACHE_BUCKET public_env = r2_bucket (store_of public_object) \<and>
   store_of public_object ''img/a.png'' = Some public_object \<and>
   getHeaderEtag sample_platform
     (headers (sample_request ''GET'' (hdr ''if-match'' (quoted ''xyz''))) ''if-match'') =
     Some ''xyz'' \<and>
   etag public_object = ''abc'' \<and>
   \<not> rangeRejected sample_platform public_env
       (sample_request ''GET'' (hdr ''if-match'' (quoted ''xyz''))) ''img/a.png'' \<and>
   handleRequest sample_platform public_env
     (sample_request ''GET'' (hdr ''if-match'' (quoted ''xyz''))) =
     ([StoreGet ''img/a.png''
         \<lparr>onlyIf = Some \<lparr>etagMatches = Some ''xyz'', etagDoesNotMatch = None,
                         uploadedBefore = None, uploadedAfter = None\<rparr>,
          range' = None\<rparr>],
      Inr preconditionFailed)"
proof -
  let ?R = "sample_request ''GET'' (hdr ''if-match'' (quoted ''xyz''))"
  have h1: "deriveKey sample_platform public_env ?R = Inr (Some ''img/a.png'')"
    and h2: "CACHE_BUCKET public_env = r2_bucket (store_of public_object)"
    and h3: "store_of public_object ''img/a.png'' = Some public_object"
    and h4: "getHeaderEtag sample_platform (headers ?R ''if-match'') = Some ''xyz''"
    and h5: "''xyz'' \<noteq> []"
    and h6: "etag public_object \<noteq> ''xyz''"
    and e: "etag public_object = ''abc''"
    and rr: "\<not> rangeRejected sample_platform public_env ?R ''img/a.png''"
    by (simp_all add: model_defs sample_defs rangeRejected_def)
  have l: "fst (handleRequest sample_platform public_env ?R) =
      [StoreGet ''img/a.png''
         \<lparr>onlyIf = Some \<lparr>etagMatches = Some ''xyz'', etagDoesNotMatch = None,
                         uploadedBefore = None, uploadedAfter = None\<rparr>,
          range' = None\<rparr>]"
    by (simp add: model_defs sample_defs)
  from if_match_mismatch_is_412[OF h1 h2 h3 h4 h5 h6, THEN conjunct1] rr
  have r: "snd (handleRequest sample_platform public_env ?R) = Inr preconditionFailed"
    by simp
  from l r have "handleRequest sample_platform public_env ?R =
     ([StoreGet ''img/a.png''
         \<lparr>onlyIf = Some \<lparr>etagMatches = Some ''xyz'', etagDoesNotMatch = None,
                         uploadedBefore = None, uploadedAfter = None\<rparr>,
          range' = None\<rparr>],
      Inr preconditionFailed)"
    by (simp add: prod_eq_iff)
  with h1 h2 h3 h4 e rr show ?thesis by (intro conjI)
qed

text \<open>
  Counterexample to C6 as stated. The response to the mismatching If-Match \<^verbatim>\<open>"xyz"\<close> has
  the body \<^verbatim>\<open>Precondition Failed\<close>, not an empty body. The empty entity-tag of the header
  \<^verbatim>\<open>If-Match: ""\<close> differs from the stored \<^verbatim>\<open>abc\<close> and is answered with the 200 of the
  stored object. A mismatching If-Match on a request with two ranges is answered 416.
\<close>

theorem if_match_mismatch_counterexample:
  "getHeaderEtag sample_platform
     (headers (sample_request ''GET'' (hdr ''if-match'' (quoted ''xyz''))) ''if-match'') =
     Some ''xyz'' \<and>
   etag public_object = ''abc'' \<and>
   snd (handleRequest sample_platform public_env
          (sample_request ''GET'' (hdr ''if-match'' (quoted ''xyz'')))) =
     Inr preconditionFailed \<and>
   status preconditionFailed = 412 \<and>
   resp_body preconditionFailed = Some ''Precondition Failed'' \<and>
   resp_body preconditionFailed \<noteq> None \<and>
   getHeaderEtag sample_platform
     (headers (sample_request ''GET'' (hdr ''if-match'' (quoted ''''))) ''if-match'') =
     Some '''' \<and>
   snd (handleRequest sample_platform public_env
          (sample_request ''GET'' (hdr ''if-match'' (quoted '''')))) =
     Inr (hitResponse sample_platform public_env (served public_object None) None) \<and>
   status (hitResponse sample_platform public_env (served public_object None) None) = 200 \<and>
   snd (handleRequest sample_platform public_env
          (sample_request ''GET''
             (hdr2 ''range'' ''bytes=0-1,5-6'' ''if-match'' (quoted ''xyz'')))) =
     Inr rangeNotSatisfiable \<and>
   status rangeNotSatisfiable = 416"
  by (simp add: model_defs sample_defs preconditionFailed_def rangeNotSatisfiable_def
      hitResponse_def)

subsection \<open>C7: weak or multi-valued entity-tag headers\<close>

text \<open>
  C7, evaluated on the handler. The claim (and the comment above \<^verbatim>\<open>getHeaderEtag\<close>)
  says that a weak If-Match is ignored. The handler only trims the value and removes one
  quote at each end: for \<^verbatim>\<open>W/"abc"\<close> on the stored object with entity-tag \<^verbatim>\<open>abc\<close>
  it asks the store for an object whose entity-tag is \<^verbatim>\<open>W/"abc\<close> and answers 412,
  where the same request without the header is a hit.
\<close>

theorem weak_if_match_keys_store_fetch:
  "getHeaderEtag sample_platform (Some (''W/'' @ quoted ''abc'')) = Some (''W/'' @ [CHR 0x22] @ ''abc'') \<and>
   etag public_object = ''abc'' \<and>
   handleRequest sample_platform public_env
     (sample_request ''GET'' (hdr ''if-match'' (''W/'' @ quoted ''abc''))) =
     ([StoreGet ''img/a.png''
         \<lparr>onlyIf = Some \<lparr>etagMatches = Some (''W/'' @ [CHR 0x22] @ ''abc''),
                           etagDoesNotMatch = None, uploadedBefore = None,
                           uploadedAfter = None\<rparr>,
          range' = None\<rparr>],
      Inr preconditionFailed) \<and>
   snd (handleRequest sample_platform public_env (sample_request ''GET'' no_headers)) =
     Inr (hitResponse sample_platform public_env (served public_object None) None)"
  by (simp add: model_defs sample_defs)

subsection \<open>C8: If-None-Match together with If-Modified-Since\<close>

text \<open>
  C8, as amended. For every cacheable request whose key is in the store and that presents
  a non-empty If-None-Match entity-tag, with or without If-Modified-Since: the 416 of
  range resolution and the 412 of the must-match group come first; when neither applies,
  the handler issues the conditional get of the must-not-match group, whose only
  condition is that the entity-tag does not match the presented one, and answers 304 with
  no body exactly when the stored object's entity-tag equals the presented one; when it
  differs, the answer is the one of the privacy gate, which is never the 304. No call to
  the store carries a condition on the upload time being later than a date.
\<close>

theorem if_none_match_equal_is_304:
  assumes key: "deriveKey p env request = Inr (Some key)"
    and store: "CACHE_BUCKET env = r2_bucket objs" "objs key = Some obj"
    and inm: "getHeaderEtag p (headers request ''if-none-match'') = Some v" "v \<noteq> []"
  shows "snd (handleRequest p env request) =
           (if rangeRejected p env request key then Inr rangeNotSatisfiable
            else if mustMatchFails obj (conditionalHeaders p request)
            then Inr preconditionFailed
            else if etag obj = v then Inr notModified
            else privacyGate p env request obj
                   (rangeInEffect p env request key (conditionalHeaders p request))) \<and>
         privacyGate p env request obj
           (rangeInEffect p env request key (conditionalHeaders p request)) \<noteq>
           Inr notModified \<and>
         status notModified = 304 \<and> resp_body notModified = None \<and>
         (\<not> rangeRejected p env request key \<and>
          \<not> mustMatchFails obj (conditionalHeaders p request) \<longrightarrow>
            StoreGet key
              \<lparr>onlyIf = Some \<lparr>etagMatches = None, etagDoesNotMatch = Some v,
                              uploadedBefore = None, uploadedAfter = None\<rparr>,
               range' = rangeInEffect p env request key (conditionalHeaders p request)\<rparr>
              \<in> set (fst (handleRequest p env request))) \<and>
         (\<forall>k opts cnd. StoreGet k opts \<in> set (fst (handleRequest p env request)) \<and>
              onlyIf opts = Some cnd \<longrightarrow> uploadedAfter cnd = None)"
proof -
  let ?c = "conditionalHeaders p request"
  let ?rng = "rangeInEffect p env request key ?c"
  have hr: "handleRequest p env request = handleCacheable p env request key ?c"
    using key by (rule handleRequest_cacheable)
  have c: "ifNoneMatch ?c = Some v" using inm by (simp add: conditionalHeaders_def)
  have group: "truthy (ifNoneMatch ?c) \<or> truthyNum (ifModifiedSince ?c)"
    using c inm(2) by (simp add: truthy_def)
  have fails: "mustNotMatchFails obj ?c = (etag obj = v)"
    using c inm(2) by (rule mustNotMatchFails_etag)
  have res: "snd (handleRequest p env request) =
           (if rangeRejected p env request key then Inr rangeNotSatisfiable
            else if mustMatchFails obj ?c then Inr preconditionFailed
            else if etag obj = v then Inr notModified
            else privacyGate p env request obj ?rng)"
    by (simp add: hr handleCacheable_stored[OF store] fails)
  have issued: "StoreGet key
        \<lparr>onlyIf = Some \<lparr>etagMatches = None, etagDoesNotMatch = Some v,
                        uploadedBefore = None, uploadedAfter = None\<rparr>,
         range' = ?rng\<rparr> \<in> set (fst (handleRequest p env request))"
    if "\<not> rangeRejected p env request key" "\<not> mustMatchFails obj ?c"
    using handleCacheable_stored_mustNotMatch_get[OF store that group]
    by (simp add: hr mustNotMatchOptions_etag[OF c inm(2)])
  have never: "uploadedAfter cnd = None"
    if "StoreGet k opts \<in> set (fst (handleRequest p env request))" "onlyIf opts = Some cnd"
    for k opts cnd
    using handleCacheable_events[of "StoreGet k opts" p env request key ?c] that c inm(2)
    by (auto simp: hr mustMatchOptions_def mustNotMatchOptions_def truthy_def)
  have gate: "privacyGate p env request obj ?rng \<noteq> Inr notModified"
    by (rule privacyGate_not_notModified)
  have n: "status notModified = 304" "resp_body notModified = None"
    by (simp_all add: notModified_def)
  from res gate n issued never show ?thesis by blast
qed

text \<open>
  Witness of C8: If-None-Match \<^verbatim>\<open>"abc"\<close> with an If-Modified-Since of the day before
  the upload, which alone lets the body through.
\<close>

theorem if_none_match_equal_is_304_witness:
  "deriveKey sample_platform public_env
     (sample_request ''GET''
        (hdr2 ''if-none-match'' (quoted ''abc'')
              ''if-modified-since'' ''Wed, 21 Oct 2015 07:28:00 GMT'')) =
     Inr (Some ''img/a.png'') \<and>
   CACHE_BUCKET public_env = r2_bucket (store_of public_object) \<and>
   store_of public_object ''img/a.png'' = Some public_object \<and>
   getHeaderEtag sample_platform
     (headers (sample_request ''GET''
        (hdr2 ''if-none-match'' (quoted ''abc'')
              ''if-modified-since'' ''Wed, 21 Oct 2015 07:28:00 GMT'')) ''if-none-match'') =
     Some ''abc'' \<and>
   etag public_object = ''abc'' \<and>
   ifModifiedSince (conditionalHeaders sample_platform
      (sample_request ''GET''
        (hdr2 ''if-none-match'' (quoted ''abc'')
              ''if-modified-since'' ''Wed, 21 Oct 2015 07:28:00 GMT''))) =
     Some 1445412480000 \<and>
   1445412480000 < uploaded public_object \<and>
   handleRequest sample_platform public_env
     (sample_request ''GET''
        (hdr2 ''if-none-match'' (quoted ''abc'')
              ''if-modified-since'' ''Wed, 21 Oct 2015 07:28:00 GMT'')) =
     ([StoreGet ''img/a.png''
         \<lparr>onlyIf = Some \<lparr>etagMatches = None, etagDoesNotMatch = Some ''abc'',
                         uploadedBefore = None, uploadedAfter = None\<rparr>,
          range' = None\<rparr>],
      Inr notModified) \<and>
   snd (handleRequest sample_platform public_env
     (sample_request ''GET'' (hdr ''if-modified-since'' ''Wed, 21 Oct 2015 07:28:00 GMT''))) =
     Inr (hitResponse sample_platform public_env (served public_object None) None)"
proof -
  let ?R = "sample_request ''GET''
        (hdr2 ''if-none-match'' (quoted ''abc'')
              ''if-modified-since'' ''Wed, 21 Oct 2015 07:28:00 GMT'')"
  have h1: "deriveKey sample_platform public_env ?R = Inr (Some ''img/a.png'')"
    and h2: "CACHE_BUCKET public_env = r2_bucket (store_of public_object)"
    and h3: "store_of public_object ''img/a.png'' = Some public_object"
    and h4: "getHeaderEtag sample_platform (headers ?R ''if-none-match'') = Some ''abc''"
    and h5: "''abc'' \<noteq> []"
    and h6: "etag public_object = ''abc''"
    and d: "ifModifiedSince (conditionalHeaders sample_platform ?R) = Some 1445412480000"
      "1445412480000 < uploaded public_object"
    by (simp_all add: model_defs sample_defs)
  have rr: "\<not> rangeRejected sample_platform public_env ?R ''img/a.png''"
    and mm: "\<not> mustMatchFails public_object (conditionalHeaders sample_platform ?R)"
    by (simp_all add: model_defs sample_defs rangeRejected_def mustMatchFails_def)
  have l: "fst (handleRequest sample_platform public_env ?R) =
     [StoreGet ''img/a.png''
         \<lparr>onlyIf = Some \<lparr>etagMatches = None, etagDoesNotMatch = Some ''abc'',
                         uploadedBefore = None, uploadedAfter = None\<rparr>,
          range' = None\<rparr>]"
    by (simp add: model_defs sample_defs)
  have alone: "snd (handleRequest sample_platform public_env
     (sample_request ''GET'' (hdr ''if-modified-since'' ''Wed, 21 Oct 2015 07:28:00 GMT''))) =
     Inr (hitResponse sample_platform public_env (served public_object None) None)"
    by (simp add: model_defs sample_defs)
  from if_none_match_equal_is_304[OF h1 h2 h3 h4 h5] l alone h1 h2 h3 h4 h6 d rr mm
  show ?thesis by (simp add: prod_eq_iff)
qed

text \<open>
  Counterexample to C8 as stated: a request with If-None-Match \<^verbatim>\<open>"abc"\<close>, equal to the
  stored entity-tag, with If-Modified-Since, and with an If-Match \<^verbatim>\<open>"xyz"\<close> that the
  stored object fails, is answered 412, not 304: the must-match group comes first.
\<close>

theorem if_none_match_after_if_match_counterexample:
  "getHeaderEtag sample_platform
     (headers (sample_request ''GET''
        (hdr3 ''if-none-match'' (quoted ''abc'')
              ''if-modified-since'' ''Wed, 21 Oct 2015 07:28:00 GMT''
              ''if-match'' (quoted ''xyz''))) ''if-none-match'') = Some ''abc'' \<and>
   etag public_object = ''abc'' \<and>
   headers (sample_request ''GET''
        (hdr3 ''if-none-match'' (quoted ''abc'')
              ''if-modified-since'' ''Wed, 21 Oct 2015 07:28:00 GMT''
              ''if-match'' (quoted ''xyz''))) ''if-modified-since'' =
     Some ''Wed, 21 Oct 2015 07:28:00 GMT'' \<and>
   snd (handleRequest sample_platform public_env
     (sample_request ''GET''
        (hdr3 ''if-none-match'' (quoted ''abc'')
              ''if-modified-since'' ''Wed, 21 Oct 2015 07:28:00 GMT''
              ''if-match'' (quoted ''xyz'')))) = Inr preconditionFailed \<and>
   status preconditionFailed = 412"
  by (simp add: model_defs sample_defs preconditionFailed_def)

subsection \<open>C9: the privacy gate\<close>

text \<open>
  C9, as amended. For every cacheable request whose key is in the store, when the
  object's cache-control does not contain \<^verbatim>\<open>private\<close>, or when the probe of the origin
  (the request with the method HEAD and redirects not followed, which can be built when
  the request has no body) is answered with a status below 300 or with 304: the 416 of
  range resolution, the 412 of the must-match group and the 304 of the must-not-match
  group come first, and when none applies the response is the one built from the stored
  object with the bytes of the range in effect. The only request sent to the origin is
  the probe of a private object.
\<close>

theorem stored_object_served_as_hit:
  assumes key: "deriveKey p env request = Inr (Some key)"
    and store: "CACHE_BUCKET env = r2_bucket objs" "objs key = Some obj"
    and gate: "\<not> isPrivate obj \<or>
         (\<exists>probe r. headProbe request = Inr probe \<and> fetch p probe = Some r \<and>
                    (status r < 300 \<or> status r = 304))"
  shows "snd (handleRequest p env request) =
           (if rangeRejected p env request key then Inr rangeNotSatisfiable
            else if mustMatchFails obj (conditionalHeaders p request)
            then Inr preconditionFailed
            else if mustNotMatchFails obj (conditionalHeaders p request)
            then Inr notModified
            else Inr (hitResponse p env
                   (served obj (rangeInEffect p env request key (conditionalHeaders p request)))
                   (rangeInEffect p env request key (conditionalHeaders p request)))) \<and>
         (\<forall>r. OriginFetch r \<in> set (fst (handleRequest p env request)) \<longrightarrow>
                headProbe request = Inr r \<and> isPrivate obj)"
proof -
  let ?c = "conditionalHeaders p request"
  have hr: "handleRequest p env request = handleCacheable p env request key ?c"
    using key by (rule handleRequest_cacheable)
  have res: "snd (handleRequest p env request) =
           (if rangeRejected p env request key then Inr rangeNotSatisfiable
            else if mustMatchFails obj ?c then Inr preconditionFailed
            else if mustNotMatchFails obj ?c then Inr notModified
            else Inr (hitResponse p env (served obj (rangeInEffect p env request key ?c))
                   (rangeInEffect p env request key ?c)))"
    by (simp add: hr handleCacheable_stored[OF store] privacyGate_hit[OF gate])
  have "headProbe request = Inr r \<and> isPrivate obj"
    if "OriginFetch r \<in> set (fst (handleRequest p env request))" for r
    using handleCacheable_stored_origin[OF store] that by (simp add: hr)
  with res show ?thesis by blast
qed

text \<open>
  Witness of C9: the private object of the sample store, whose probe the sample origin
  answers with 200, is served from the store.
\<close>

theorem stored_object_served_as_hit_witness:
  "deriveKey sample_platform private_env (sample_request ''GET'' no_headers) =
     Inr (Some ''img/a.png'') \<and>
   CACHE_BUCKET private_env = r2_bucket (store_of private_object) \<and>
   store_of private_object ''img/a.png'' = Some private_object \<and>
   isPrivate private_object \<and>
   headProbe (sample_request ''GET'' no_headers) =
     Inr ((sample_request ''GET'' no_headers)\<lparr>method' := ''HEAD'', redirect := ''manual''\<rparr>) \<and>
   fetch sample_platform
     ((sample_request ''GET'' no_headers)\<lparr>method' := ''HEAD'', redirect := ''manual''\<rparr>) =
     Some \<lparr>status = 200, resp_body = None,
           resp_headers = [(''content-type'', ''image/png'')]\<rparr> \<and>
   handleRequest sample_platform private_env (sample_request ''GET'' no_headers) =
     ([StoreHead ''img/a.png'',
       OriginFetch ((sample_request ''GET'' no_headers)
                      \<lparr>method' := ''HEAD'', redirect := ''manual''\<rparr>),
       StoreGet ''img/a.png'' \<lparr>onlyIf = None, range' = None\<rparr>],
      Inr (hitResponse sample_platform private_env (served private_object None) None)) \<and>
   status (hitResponse sample_platform private_env (served private_object None) None) = 200 \<and>
   resp_body (hitResponse sample_platform private_env (served private_object None) None) =
     obj_body private_object"
proof -
  let ?R = "sample_request ''GET'' no_headers"
  let ?P = "?R\<lparr>method' := ''HEAD'', redirect := ''manual''\<rparr>"
  let ?o = "\<lparr>status = 200, resp_body = None,
            resp_headers = [(''content-type'', ''image/png'')]\<rparr>"
  let ?c = "conditionalHeaders sample_platform ?R"
  have h1: "deriveKey sample_platform private_env ?R = Inr (Some ''img/a.png'')"
    and h2: "CACHE_BUCKET private_env = r2_bucket (store_of private_object)"
    and h3: "store_of private_object ''img/a.png'' = Some private_object"
    and pr: "isPrivate private_object"
    and hp: "headProbe ?R = Inr ?P"
    and f: "fetch sample_platform ?P = Some ?o"
    by (simp_all add: model_defs sample_defs)
  from hp f have h4: "\<not> isPrivate private_object \<or>
      (\<exists>probe r. headProbe ?R = Inr probe \<and> fetch sample_platform probe = Some r \<and>
                 (status r < 300 \<or> status r = 304))"
    by simp
  have rr: "\<not> rangeRejected sample_platform private_env ?R ''img/a.png''"
    and mm: "\<not> mustMatchFails private_object ?c"
    and mn: "\<not> mustNotMatchFails private_object ?c"
    and ri: "rangeInEffect sample_platform private_env ?R ''img/a.png'' ?c = None"
    by (simp_all add: model_defs sample_defs rangeRejected_def mustMatchFails_def
        mustNotMatchFails_def rangeInEffect_def)
  have l: "fst (handleRequest sample_platform private_env ?R) =
     [StoreHead ''img/a.png'', OriginFetch ?P,
      StoreGet ''img/a.png'' \<lparr>onlyIf = None, range' = None\<rparr>]"
    by (simp add: model_defs sample_defs)
  have b: "status (hitResponse sample_platform private_env (served private_object None) None) = 200"
    "resp_body (hitResponse sample_platform private_env (served private_object None) None) =
       obj_body private_object"
    by (simp_all add: model_defs sample_defs hitResponse_def)
  from stored_object_served_as_hit[OF h1 h2 h3 h4] rr mm mn ri
  have "snd (handleRequest sample_platform private_env ?R) =
      Inr (hitResponse sample_platform private_env (served private_object None) None)"
    by simp
  with l b h1 h2 h3 pr hp f show ?thesis by (simp add: prod_eq_iff)
qed

text \<open>
  Counterexample to C9 as stated: the object is stored and not private, and the request
  carries an If-None-Match equal to its entity-tag; the response is the 304 with no body,
  not the object served from the store.
\<close>

theorem stored_object_not_served_counterexample:
  "store_of public_object ''img/a.png'' = Some public_object \<and>
   \<not> isPrivate public_object \<and>
   handleRequest sample_platform public_env
     (sample_request ''GET'' (hdr ''if-none-match'' (quoted ''abc''))) =
     ([StoreGet ''img/a.png''
         \<lparr>onlyIf = Some \<lparr>etagMatches = None, etagDoesNotMatch = Some ''abc'',
                         uploadedBefore = None, uploadedAfter = None\<rparr>,
          range' = None\<rparr>],
      Inr notModified) \<and>
   status notModified = 304 \<and>
   resp_body notModified = None \<and>
   obj_body public_object \<noteq> None"
  by (simp add: model_defs sample_defs notModified_def)

subsection \<open>C10: timestamps that parse to the epoch\<close>

text \<open>
  C10. An If-Modified-Since or If-Unmodified-Since that parses to 0 is treated as one that
  does not parse: the rest of the handler gives the same result for both, no call to the
  store carries the corresponding condition on the upload time, and when the entity-tag
  header of the same group is absent the group makes no call and returns nothing by
  itself.
\<close>

theorem epoch_date_treated_as_absent:
  "handleCacheable p env request key (c\<lparr>ifModifiedSince := Some 0\<rparr>) =
     handleCacheable p env request key (c\<lparr>ifModifiedSince := None\<rparr>) \<and>
   handleCacheable p env request key (c\<lparr>ifUnmodifiedSince := Some 0\<rparr>) =
     handleCacheable p env request key (c\<lparr>ifUnmodifiedSince := None\<rparr>) \<and>
   (Date_parse p (orEmpty (headers request ''if-modified-since'')) = Some 0 \<longrightarrow>
      (\<forall>k opts cnd. StoreGet k opts \<in> set (fst (handleRequest p env request)) \<and>
           onlyIf opts = Some cnd \<longrightarrow> uploadedAfter cnd = None)) \<and>
   (Date_parse p (orEmpty (headers request ''if-unmodified-since'')) = Some 0 \<longrightarrow>
      (\<forall>k opts cnd. StoreGet k opts \<in> set (fst (handleRequest p env request)) \<and>
           onlyIf opts = Some cnd \<longrightarrow> uploadedBefore cnd = None)) \<and>
   (\<not> truthy (ifNoneMatch c) \<longrightarrow>
      mustNotMatch env key (c\<lparr>ifModifiedSince := Some 0\<rparr>) file rng = ([], Inr file)) \<and>
   (\<not> truthy (ifMatch c) \<longrightarrow>
      mustMatch env key (c\<lparr>ifUnmodifiedSince := Some 0\<rparr>) file rng = ([], Inr file))"
proof -
  have skip1: "\<not> truthy (ifNoneMatch c) \<longrightarrow>
      mustNotMatch env key (c\<lparr>ifModifiedSince := Some 0\<rparr>) file rng = ([], Inr file)"
    by (simp add: mustNotMatch_def truthyNum_def)
  have skip2: "\<not> truthy (ifMatch c) \<longrightarrow>
      mustMatch env key (c\<lparr>ifUnmodifiedSince := Some 0\<rparr>) file rng = ([], Inr file)"
    by (simp add: mustMatch_def truthyNum_def)
  show ?thesis
    using handleCacheable_ifModifiedSince_zero[of p env request key c]
      handleCacheable_ifUnmodifiedSince_zero[of p env request key c]
      conditional_gets_of_zero[where p = p and env = env and request = request]
      skip1 skip2
    by blast
qed

text \<open>
  Witness of C10: a GET whose If-Modified-Since and If-Unmodified-Since are both the epoch
  makes no conditional call and is served as a hit, as the request without them.
\<close>

theorem epoch_date_treated_as_absent_witness:
  "Date_parse sample_platform
     (orEmpty (headers (sample_request ''GET''
        (hdr2 ''if-modified-since'' ''Thu, 01 Jan 1970 00:00:00 GMT''
              ''if-unmodified-since'' ''Thu, 01 Jan 1970 00:00:00 GMT'')) ''if-modified-since'')) =
     Some 0 \<and>
   Date_parse sample_platform
     (orEmpty (headers (sample_request ''GET''
        (hdr2 ''if-modified-since'' ''Thu, 01 Jan 1970 00:00:00 GMT''
              ''if-unmodified-since'' ''Thu, 01 Jan 1970 00:00:00 GMT'')) ''if-unmodified-since'')) =
     Some 0 \<and>
   handleRequest sample_platform public_env
     (sample_request ''GET''
        (hdr2 ''if-modified-since'' ''Thu, 01 Jan 1970 00:00:00 GMT''
              ''if-unmodified-since'' ''Thu, 01 Jan 1970 00:00:00 GMT'')) =
     ([StoreHead ''img/a.png'', StoreGet ''img/a.png'' \<lparr>onlyIf = None, range' = None\<rparr>],
      Inr (hitResponse sample_platform public_env (served public_object None) None)) \<and>
   handleCacheable sample_platform public_env (sample_request ''GET'' no_headers) ''img/a.png''
     ((conditionalHeaders sample_platform (sample_request ''GET'' no_headers))
        \<lparr>ifModifiedSince := Some 0\<rparr>) =
   handleCacheable sample_platform public_env (sample_request ''GET'' no_headers) ''img/a.png''
     ((conditionalHeaders sample_platform (sample_request ''GET'' no_headers))
        \<lparr>ifModifiedSince := None\<rparr>) \<and>
   mustNotMatch public_env ''img/a.png''
     ((conditionalHeaders sample_platform (sample_request ''GET'' no_headers))
        \<lparr>ifModifiedSince := Some 0\<rparr>) None None = ([], Inr None) \<and>
   mustMatch public_env ''img/a.png''
     ((conditionalHeaders sample_platform (sample_request ''GET'' no_headers))
        \<lparr>ifUnmodifiedSince := Some 0\<rparr>) None None = ([], Inr None)"
proof -
  let ?R = "sample_request ''GET''
        (hdr2 ''if-modified-since'' ''Thu, 01 Jan 1970 00:00:00 GMT''
              ''if-unmodified-since'' ''Thu, 01 Jan 1970 00:00:00 GMT'')"
  let ?Q = "sample_request ''GET'' no_headers"
  let ?c = "conditionalHeaders sample_platform ?Q"
  have d: "Date_parse sample_platform (orEmpty (headers ?R ''if-modified-since'')) = Some 0"
    "Date_parse sample_platform (orEmpty (headers ?R ''if-unmodified-since'')) = Some 0"
    by (simp_all add: model_defs sample_defs)
  have a: "\<not> truthy (ifNoneMatch ?c)" "\<not> truthy (ifMatch ?c)"
    by (simp_all add: model_defs sample_defs)
  have run: "handleRequest sample_platform public_env ?R =
     ([StoreHead ''img/a.png'', StoreGet ''img/a.png'' \<lparr>onlyIf = None, range' = None\<rparr>],
      Inr (hitResponse sample_platform public_env (served public_object None) None))"
    by (simp add: model_defs sample_defs)
  note t = epoch_date_treated_as_absent[of sample_platform public_env ?Q "''img/a.png''" ?c
      None None]
  from t have e: "handleCacheable sample_platform public_env ?Q ''img/a.png''
      (?c\<lparr>ifModifiedSince := Some 0\<rparr>) =
    handleCacheable sample_platform public_env ?Q ''img/a.png''
      (?c\<lparr>ifModifiedSince := None\<rparr>)"
    by (rule conjunct1)
  from t a have m1: "mustNotMatch public_env ''img/a.png'' (?c\<lparr>ifModifiedSince := Some 0\<rparr>)
      None None = ([], Inr None)"
    by blast
  from t a have m2: "mustMatch public_env ''img/a.png'' (?c\<lparr>ifUnmodifiedSince := Some 0\<rparr>)
      None None = ([], Inr None)"
    by blast
  from d run e m1 m2 show ?thesis by (intro conjI)
qed



end
